theory Spec2Isabelle
  imports Main
begin

section \<open>Values of the events and server packages\<close>

text \<open>
  A Go \<^verbatim>\<open>error\<close> is modelled by its \<^verbatim>\<open>Error()\<close> text; \<^verbatim>\<open>nil\<close> is \<open>None\<close> of
  \<open>error option\<close>. \<^verbatim>\<open>errors.Wrap(err, msg)\<close> yields \<^verbatim>\<open>msg + ": " + err.Error()\<close>.
\<close>

type_synonym error = string

definition errors_Wrap :: "error \<Rightarrow> string \<Rightarrow> error" where
  "errors_Wrap err msg = msg @ '': '' @ err"

text \<open>
  The models package is not among the two source files; its structs are given with the
  fields the two files read. The host type is an integer enumeration in Go, and the switch
  of \<^verbatim>\<open>RunCommentCommand\<close> has a default branch, so it has values besides the two hosts.
\<close>

datatype VCSHostType = Github | Gitlab | OtherVCSHostType nat

record VCSHost =
  Hostname :: string
  Type :: VCSHostType

record Repo =
  FullName :: string
  Owner :: string
  Repo_Name :: string
  Repo_VCSHost :: VCSHost

text \<open>\<^verbatim>\<open>models.Repo{}\<close>: every field at its zero value.\<close>

definition zero_Repo :: Repo where
  "zero_Repo = \<lparr>FullName = [], Owner = [], Repo_Name = [],
     Repo_VCSHost = \<lparr>Hostname = [], Type = Github\<rparr>\<rparr>"

datatype PullRequestState = Open | Closed

record PullRequest =
  Num :: int
  State :: PullRequestState
  Pull_BaseRepo :: Repo
  URL :: string
  Author :: string

definition zero_PullRequest :: PullRequest where
  "zero_PullRequest = \<lparr>Num = 0, State = Open, Pull_BaseRepo = zero_Repo, URL = [], Author = []\<rparr>"

record User =
  Username :: string

text \<open>
  The command name is an integer enumeration in Go as well: the switch on \<^verbatim>\<open>cmd.Name\<close>
  has a default branch for a value that is neither \<^verbatim>\<open>Plan\<close> nor \<^verbatim>\<open>Apply\<close>.
\<close>

datatype CommandName = Apply | Plan | OtherCommandName nat

record CommentCommand =
  CommentCommand_Name :: CommandName
  CommentCommand_RepoRelDir :: string
  CommentCommand_Workspace :: string
  Verbose :: bool

text \<open>
  \<^verbatim>\<open>CommandInterface\<close> has the two implementations the runner passes to \<^verbatim>\<open>updatePull\<close>:
  \<^verbatim>\<open>AutoplanCommand{}\<close> and \<^verbatim>\<open>*CommentCommand\<close>.

  Modelled from the spec: the three methods of \<^verbatim>\<open>CommandInterface\<close> are declared outside
  the two source files. An autoplan is "always plan", is never verbose and is the only
  command that is an autoplan; a comment command answers with its own name and
  verbosity flag.
\<close>

datatype CommandInterface = AutoplanCommand | CommentCmd CommentCommand

fun CommandName_of :: "CommandInterface \<Rightarrow> CommandName" where
  "CommandName_of AutoplanCommand = Plan"
| "CommandName_of (CommentCmd cmd) = CommentCommand_Name cmd"

fun IsVerbose :: "CommandInterface \<Rightarrow> bool" where
  "IsVerbose AutoplanCommand = False"
| "IsVerbose (CommentCmd cmd) = Verbose cmd"

fun IsAutoplan :: "CommandInterface \<Rightarrow> bool" where
  "IsAutoplan AutoplanCommand = True"
| "IsAutoplan (CommentCmd cmd) = False"

datatype CommitStatus = Pending | Success | Failed

text \<open>The unit of work the builder produces and the runner executes.\<close>

record ProjectCommandContext =
  RepoRelDir :: string
  Workspace :: string
  ProjectConfig :: string

record ProjectCommandResult =
  pcr_Error :: "error option"
  pcr_Failure :: string
  pcr_Output :: string

record ProjectResult =
  ProjectCommandResult :: ProjectCommandResult
  pr_RepoRelDir :: string
  pr_Workspace :: string

record CommandResult =
  cr_Error :: "error option"
  cr_Failure :: string
  ProjectResults :: "ProjectResult list"

subsection \<open>Loggers\<close>

text \<open>
  A log15 logger: its context pairs and its handler. \<^verbatim>\<open>buildLogger\<close> derives a child
  logger with the pair \<^verbatim>\<open>("pull", "<repo>#<num>")\<close> and replaces its handler by a history
  handler around the old one.

  Modelled from the spec: \<^verbatim>\<open>logging.NewHistoryHandler\<close> is outside the two source files.
  It gives a handler that "also accumulates every emitted line into an in-memory history
  buffer"; the buffer of an invocation is the list of the records logged during it.
\<close>

datatype Lvl = LvlCrit | LvlError | LvlWarn | LvlInfo | LvlDebug

datatype Handler = RootHandler | HistoryHandler Handler

record Logger =
  Ctx :: "(string \<times> string) list"
  GetHandler :: Handler

record CommandContext =
  ctx_User :: User
  ctx_Logger :: Logger
  ctx_Pull :: PullRequest
  ctx_HeadRepo :: Repo
  ctx_BaseRepo :: Repo

text \<open>Payloads of the two hosts' client libraries, opaque to the runner.\<close>

datatype github_PullRequest = GithubPullRequest string
datatype gitlab_MergeRequest = GitlabMergeRequest string

subsection \<open>Locks\<close>

record Project =
  RepoFullName :: string
  Path :: string

record ProjectLock =
  lock_Project :: Project
  lock_Pull :: PullRequest
  lock_User :: User
  lock_Workspace :: string

record LockDetailData =
  LockKeyEncoded :: string
  LockKey :: string
  RepoOwner :: string
  RepoName :: string
  PullRequestLink :: string
  LockedBy :: string
  ldd_Workspace :: string
  ldd_AtlantisVersion :: string

section \<open>Effects: a trace of collaborator calls, and panics\<close>

text \<open>
  Every call of a collaborator, every log record and every write to the HTTP response is
  an event; a run is the list of its events in order. A call either returns the value of
  its Go signature or panics with a payload (given by its \<^verbatim>\<open>%s\<close> text).
\<close>

datatype event =
    CreateComment_ev Repo int string
  | Update_ev Repo PullRequest CommitStatus CommandName
  | UpdateProjectResult_ev CommandContext CommandName CommandResult
  | Log_ev Lvl string "(string \<times> string) list"
  | GetPullRequest_ev Repo int
  | GetMergeRequest_ev string int
  | ParseGithubPull_ev github_PullRequest
  | ParseGitlabMergeRequest_ev gitlab_MergeRequest Repo
  | BuildAutoplanCommands_ev CommandContext
  | BuildPlanCommand_ev CommandContext CommentCommand
  | BuildApplyCommand_ev CommandContext CommentCommand
  | Plan_ev ProjectCommandContext
  | Apply_ev ProjectCommandContext
  | Render_ev CommandResult CommandName "(Lvl \<times> string \<times> (string \<times> string) list) list" bool bool
  | Locker_GetLock_ev string
  | Locker_Unlock_ev string
  | TryLock_ev string string int
  | unlock_ev string string int
  | DeleteForWorkspace_ev Repo PullRequest string
  | Execute_ev LockDetailData
  | WriteHeader_ev nat
  | Fprintln_ev string

datatype 'a outcome = Returns 'a | Panics string

type_synonym 'a prog = "event list \<Rightarrow> 'a outcome \<times> event list"

definition return :: "'a \<Rightarrow> 'a prog" where
  "return x = (\<lambda>t. (Returns x, t))"

definition bind :: "'a prog \<Rightarrow> ('a \<Rightarrow> 'b prog) \<Rightarrow> 'b prog" where
  "bind m f = (\<lambda>t. case m t of (Returns x, t') \<Rightarrow> f x t' | (Panics p, t') \<Rightarrow> (Panics p, t'))"

definition seq :: "unit prog \<Rightarrow> 'b prog \<Rightarrow> 'b prog" where
  "seq m n = bind m (\<lambda>_. n)"

text \<open>A collaborator call: the call is recorded, then it returns or panics.\<close>

definition call :: "event \<Rightarrow> 'a outcome \<Rightarrow> 'a prog" where
  "call e out = (\<lambda>t. (out, t @ [e]))"

definition emit :: "event \<Rightarrow> unit prog" where
  "emit e = call e (Returns ())"

definition get_trace :: "(event list) prog" where
  "get_trace = (\<lambda>t. (Returns t, t))"

text \<open>
  \<^verbatim>\<open>defer f()\<close> where \<open>f\<close> calls \<^verbatim>\<open>recover()\<close>: \<open>f\<close> runs when the body ends, normally
  or by a panic; \<^verbatim>\<open>recover()\<close> gives it the payload (\<open>None\<close> when the body did not panic) and
  stops the panic, so the function returns normally unless \<open>f\<close> itself panics.
\<close>

definition defer_recover :: "(string option \<Rightarrow> unit prog) \<Rightarrow> unit prog \<Rightarrow> unit prog" where
  "defer_recover f body = (\<lambda>t. case body t of
       (Returns x, t') \<Rightarrow> f None t'
     | (Panics p, t') \<Rightarrow> f (Some p) t')"

text \<open>
  \<^verbatim>\<open>defer f()\<close> where \<open>f\<close> does not recover: \<open>f\<close> runs when the body ends; a panic of the
  body goes on after it, and a panic of \<open>f\<close> replaces it.
\<close>

definition defer_call :: "unit prog \<Rightarrow> unit prog \<Rightarrow> unit prog" where
  "defer_call f body = (\<lambda>t. case body t of
       (Returns x, t') \<Rightarrow> f t'
     | (Panics p, t') \<Rightarrow> (case f t' of
           (Returns y, t'') \<Rightarrow> (Panics p, t'')
         | (Panics q, t'') \<Rightarrow> (Panics q, t'')))"

text \<open>A method of a logger: the record carries the logger's context before the call's pairs.\<close>

definition log :: "Logger \<Rightarrow> Lvl \<Rightarrow> string \<Rightarrow> (string \<times> string) list \<Rightarrow> unit prog" where
  "log lg lvl msg kvs = emit (Log_ev lvl msg (Ctx lg @ kvs))"

fun History :: "event list \<Rightarrow> (Lvl \<times> string \<times> (string \<times> string) list) list" where
  "History [] = []"
| "History (Log_ev lvl msg kvs # t) = (lvl, msg, kvs) # History t"
| "History (e # t) = History t"

text \<open>The comments posted in a run, and the commit-status updates of a run.\<close>

fun comments :: "event list \<Rightarrow> (Repo \<times> int \<times> string) list" where
  "comments [] = []"
| "comments (CreateComment_ev r n s # t) = (r, n, s) # comments t"
| "comments (e # t) = comments t"

fun is_status_update :: "event \<Rightarrow> bool" where
  "is_status_update (Update_ev r p s n) = True"
| "is_status_update (UpdateProjectResult_ev c n r) = True"
| "is_status_update e = False"

fun planned :: "event list \<Rightarrow> ProjectCommandContext list" where
  "planned [] = []"
| "planned (Plan_ev cmd # t) = cmd # planned t"
| "planned (e # t) = planned t"

text \<open>\<^verbatim>\<open>%d\<close> of an integer.\<close>

definition digit :: "nat \<Rightarrow> char" where
  "digit d = char_of (48 + d)"

function utoa :: "nat \<Rightarrow> string" where
  "utoa n = (if n < 10 then [digit n] else utoa (n div 10) @ [digit (n mod 10)])"
  by pat_completeness auto
termination
  by (relation "measure id") auto

definition Itoa :: "int \<Rightarrow> string" where
  "Itoa i = (if i < 0 then CHR ''-'' # utoa (nat (- i)) else utoa (nat i))"

section \<open>The command runner (server/events/command\_runner.go)\<close>

subsection \<open>Collaborators\<close>

text \<open>
  Each interface is a record of its methods. A method is a function of its arguments that
  returns what its Go signature says, or panics.
\<close>

record ClientProxy =
  CreateComment :: "Repo \<Rightarrow> int \<Rightarrow> string \<Rightarrow> error option outcome"

record CommitStatusUpdater =
  Update :: "Repo \<Rightarrow> PullRequest \<Rightarrow> CommitStatus \<Rightarrow> CommandName \<Rightarrow> error option outcome"
  UpdateProjectResult :: "CommandContext \<Rightarrow> CommandName \<Rightarrow> CommandResult \<Rightarrow> error option outcome"

record EventParsing =
  ParseGithubPull :: "github_PullRequest \<Rightarrow> (PullRequest \<times> Repo \<times> Repo \<times> error option) outcome"
  ParseGitlabMergeRequest :: "gitlab_MergeRequest \<Rightarrow> Repo \<Rightarrow> PullRequest outcome"

record ProjectCommandBuilder =
  BuildAutoplanCommands :: "CommandContext \<Rightarrow> (ProjectCommandContext list \<times> error option) outcome"
  BuildPlanCommand :: "CommandContext \<Rightarrow> CommentCommand \<Rightarrow> (ProjectCommandContext \<times> error option) outcome"
  BuildApplyCommand :: "CommandContext \<Rightarrow> CommentCommand \<Rightarrow> (ProjectCommandContext \<times> error option) outcome"

record ProjectCommandRunner =
  Runner_Plan :: "ProjectCommandContext \<Rightarrow> ProjectCommandResult outcome"
  Runner_Apply :: "ProjectCommandContext \<Rightarrow> ProjectCommandResult outcome"

text \<open>
  The renderer receives the history buffer as the list of its records; the layout of
  \<^verbatim>\<open>History.String()\<close> belongs to the logging package.
\<close>

record MarkdownRenderer =
  Render :: "CommandResult \<Rightarrow> CommandName \<Rightarrow> (Lvl \<times> string \<times> (string \<times> string) list) list
               \<Rightarrow> bool \<Rightarrow> bool \<Rightarrow> string outcome"

text \<open>
  The two pull getters are interface values that the runner compares with \<^verbatim>\<open>nil\<close>:
  \<open>None\<close> is \<^verbatim>\<open>nil\<close>.

  The field \<open>Stack_frames\<close> is not a field of the Go struct: it gives the frames of the
  goroutine that \<^verbatim>\<open>recovery.Stack\<close> reports after leaving out a number of frames, the
  first reported frame and those after it, and is a parameter of the model.
\<close>

record DefaultCommandRunner =
  VCSClient :: ClientProxy
  GithubPullGetter :: "(Repo \<Rightarrow> int \<Rightarrow> (github_PullRequest \<times> error option) outcome) option"
  GitlabMergeRequestGetter :: "(string \<Rightarrow> int \<Rightarrow> (gitlab_MergeRequest \<times> error option) outcome) option"
  CommitStatusUpdater :: CommitStatusUpdater
  EventParser :: EventParsing
  MarkdownRenderer :: MarkdownRenderer
  AllowForkPRs :: bool
  AllowForkPRsFlag :: string
  ProjectCommandBuilder :: ProjectCommandBuilder
  ProjectCommandRunner :: ProjectCommandRunner
  Stack_frames :: "nat \<Rightarrow> string \<times> string list"

subsection \<open>The runner's functions\<close>

text \<open>
  Modelled from the spec: \<^verbatim>\<open>recovery.Stack\<close> is outside the two source files. The spec
  says that the panic comment holds "a bounded-depth stack trace" and "a non-empty stack":
  the result is the text of at least one frame and of finitely many, each frame on a line
  of its own (\<open>CHR 0x0A\<close> is the newline).
\<close>

definition recovery_Stack :: "DefaultCommandRunner \<Rightarrow> nat \<Rightarrow> string" where
  "recovery_Stack c skip =
     (case Stack_frames c skip of
        (frame, frames) \<Rightarrow> concat (map (\<lambda>f. f @ [CHR 0x0A]) (frame # frames)))"

definition buildLogger :: "Logger \<Rightarrow> string \<Rightarrow> int \<Rightarrow> Logger" where
  "buildLogger parentLogger repoFullName pullNum =
     \<lparr>Ctx = Ctx parentLogger @ [(''pull'', repoFullName @ ''#'' @ Itoa pullNum)],
      GetHandler = HistoryHandler (GetHandler parentLogger)\<rparr>"

definition validateCtxAndComment :: "DefaultCommandRunner \<Rightarrow> CommandContext \<Rightarrow> bool prog" where
  "validateCtxAndComment c ctx =
     (if \<not> AllowForkPRs c \<and> Owner (ctx_HeadRepo ctx) \<noteq> Owner (ctx_BaseRepo ctx) then
        seq (log (ctx_Logger ctx) LvlInfo
               ''command was run on a fork pull request which is disallowed'' [])
          (bind (call (CreateComment_ev (ctx_BaseRepo ctx) (Num (ctx_Pull ctx))
                         (''Atlantis commands can't be run on fork pull requests. To enable, set --''
                            @ AllowForkPRsFlag c))
                   (CreateComment (VCSClient c) (ctx_BaseRepo ctx) (Num (ctx_Pull ctx))
                         (''Atlantis commands can't be run on fork pull requests. To enable, set --''
                            @ AllowForkPRsFlag c)))
             (\<lambda>_. return False))
      else if State (ctx_Pull ctx) \<noteq> Open then
        seq (log (ctx_Logger ctx) LvlInfo ''command was run on closed pull request'' [])
          (bind (call (CreateComment_ev (ctx_BaseRepo ctx) (Num (ctx_Pull ctx))
                         ''Atlantis commands can't be run on closed pull requests'')
                   (CreateComment (VCSClient c) (ctx_BaseRepo ctx) (Num (ctx_Pull ctx))
                         ''Atlantis commands can't be run on closed pull requests''))
             (\<lambda>_. return False))
      else return True)"

definition updatePull ::
  "DefaultCommandRunner \<Rightarrow> CommandContext \<Rightarrow> CommandInterface \<Rightarrow> CommandResult \<Rightarrow> unit prog" where
  "updatePull c ctx command res =
     seq (case cr_Error res of
            Some e \<Rightarrow> log (ctx_Logger ctx) LvlError e []
          | None \<Rightarrow> if cr_Failure res \<noteq> [] then log (ctx_Logger ctx) LvlWarn (cr_Failure res) []
                    else return ())
    (seq (bind (call (UpdateProjectResult_ev ctx (CommandName_of command) res)
                  (UpdateProjectResult (CommitStatusUpdater c) ctx (CommandName_of command) res))
            (\<lambda>err. case err of
                 Some e \<Rightarrow> log (ctx_Logger ctx) LvlWarn ''unable to update commit status'' [(''err'', e)]
               | None \<Rightarrow> return ()))
       (case GetHandler (ctx_Logger ctx) of
          RootHandler \<Rightarrow>
            log (ctx_Logger ctx) LvlError
              ''could not cast logger to logging.HistoryHandler; this is a bug!'' []
        | HistoryHandler h \<Rightarrow>
            bind get_trace (\<lambda>t.
            bind (call (Render_ev res (CommandName_of command) (History t)
                          (IsVerbose command) (IsAutoplan command))
                    (Render (MarkdownRenderer c) res (CommandName_of command) (History t)
                          (IsVerbose command) (IsAutoplan command)))
              (\<lambda>comment.
            bind (call (CreateComment_ev (ctx_BaseRepo ctx) (Num (ctx_Pull ctx)) comment)
                    (CreateComment (VCSClient c) (ctx_BaseRepo ctx) (Num (ctx_Pull ctx)) comment))
              (\<lambda>_. return ())))))"

text \<open>The comment of \<^verbatim>\<open>logPanics\<close> (line 260); \<open>CHR 0x0A\<close> is the newline.\<close>

definition panicComment :: "string \<Rightarrow> string \<Rightarrow> string" where
  "panicComment err stack =
     ''**Error: goroutine panic. This is a bug.**'' @ [CHR 0x0A] @ ''```'' @ [CHR 0x0A]
       @ err @ [CHR 0x0A] @ stack @ ''```''"

text \<open>\<open>recovered\<close> is the value of \<^verbatim>\<open>recover()\<close>.\<close>

definition logPanics :: "DefaultCommandRunner \<Rightarrow> CommandContext \<Rightarrow> string option \<Rightarrow> unit prog" where
  "logPanics c ctx recovered =
     (case recovered of
        None \<Rightarrow> return ()
      | Some err \<Rightarrow>
          (let stack = recovery_Stack c 3 in
           seq (bind (call (CreateComment_ev (ctx_BaseRepo ctx) (Num (ctx_Pull ctx)) (panicComment err stack))
                        (CreateComment (VCSClient c) (ctx_BaseRepo ctx) (Num (ctx_Pull ctx))
                           (panicComment err stack)))
                  (\<lambda>_. return ()))
             (log (ctx_Logger ctx) LvlError (''PANIC: '' @ err) [(''stack'', stack)])))"

text \<open>The pending commit status of both entry points (lines 88--90 and 149--151).\<close>

definition updatePending :: "DefaultCommandRunner \<Rightarrow> CommandContext \<Rightarrow> CommandName \<Rightarrow> unit prog" where
  "updatePending c ctx name =
     bind (call (Update_ev (ctx_BaseRepo ctx) (ctx_Pull ctx) Pending name)
             (Update (CommitStatusUpdater c) (ctx_BaseRepo ctx) (ctx_Pull ctx) Pending name))
       (\<lambda>err. case err of
            Some e \<Rightarrow> log (ctx_Logger ctx) LvlWarn ''unable to update commit status'' [(''err'', e)]
          | None \<Rightarrow> return ())"

text \<open>The loop of \<^verbatim>\<open>RunAutoplanCommand\<close> (lines 98--106); \<open>results\<close> is the slice so far.\<close>

fun planAll ::
  "DefaultCommandRunner \<Rightarrow> ProjectCommandContext list \<Rightarrow> ProjectResult list \<Rightarrow> (ProjectResult list) prog" where
  "planAll c [] results = return results"
| "planAll c (cmd # projectCmds) results =
     bind (call (Plan_ev cmd) (Runner_Plan (ProjectCommandRunner c) cmd))
       (\<lambda>res. planAll c projectCmds
          (results @ [\<lparr>ProjectCommandResult = res, pr_RepoRelDir = RepoRelDir cmd,
                        pr_Workspace = Workspace cmd\<rparr>]))"

text \<open>The statements of \<^verbatim>\<open>RunAutoplanCommand\<close> after its \<^verbatim>\<open>defer\<close> (lines 85--107).\<close>

definition RunAutoplanCommand_body :: "DefaultCommandRunner \<Rightarrow> CommandContext \<Rightarrow> unit prog" where
  "RunAutoplanCommand_body c ctx =
     bind (validateCtxAndComment c ctx) (\<lambda>ok.
       if \<not> ok then return ()
       else
         seq (updatePending c ctx Plan)
           (bind (call (BuildAutoplanCommands_ev ctx)
                    (BuildAutoplanCommands (ProjectCommandBuilder c) ctx))
              (\<lambda>(projectCmds, err). case err of
                   Some e \<Rightarrow>
                     updatePull c ctx AutoplanCommand
                       \<lparr>cr_Error = Some e, cr_Failure = [], ProjectResults = []\<rparr>
                 | None \<Rightarrow>
                     bind (planAll c projectCmds []) (\<lambda>results.
                       updatePull c ctx AutoplanCommand
                         \<lparr>cr_Error = None, cr_Failure = [], ProjectResults = results\<rparr>))))"

text \<open>An invocation starts with an empty trace, and so with an empty history buffer.\<close>

definition RunAutoplanCommand ::
  "DefaultCommandRunner \<Rightarrow> Logger \<Rightarrow> Repo \<Rightarrow> Repo \<Rightarrow> PullRequest \<Rightarrow> User \<Rightarrow> unit outcome \<times> event list" where
  "RunAutoplanCommand c logger baseRepo headRepo pull user =
     (let pullLogger = buildLogger logger (FullName baseRepo) (Num pull);
          ctx = \<lparr>ctx_User = user, ctx_Logger = pullLogger, ctx_Pull = pull,
                 ctx_HeadRepo = headRepo, ctx_BaseRepo = baseRepo\<rparr>
      in defer_recover (logPanics c ctx) (RunAutoplanCommand_body c ctx) [])"

definition getGithubData ::
  "DefaultCommandRunner \<Rightarrow> Repo \<Rightarrow> int \<Rightarrow> (PullRequest \<times> Repo \<times> error option) prog" where
  "getGithubData c baseRepo pullNum =
     (case GithubPullGetter c of
        None \<Rightarrow> return (zero_PullRequest, zero_Repo, Some ''Atlantis not configured to support GitHub'')
      | Some getter \<Rightarrow>
          bind (call (GetPullRequest_ev baseRepo pullNum) (getter baseRepo pullNum))
            (\<lambda>(ghPull, err). case err of
                 Some e \<Rightarrow>
                   return (zero_PullRequest, zero_Repo,
                           Some (errors_Wrap e ''making pull request API call to GitHub''))
               | None \<Rightarrow>
                   bind (call (ParseGithubPull_ev ghPull) (ParseGithubPull (EventParser c) ghPull))
                     (\<lambda>(pull, _, headRepo, err). case err of
                          Some e \<Rightarrow>
                            return (pull, headRepo,
                                    Some (errors_Wrap e ''extracting required fields from comment data''))
                        | None \<Rightarrow> return (pull, headRepo, None))))"

definition getGitlabData ::
  "DefaultCommandRunner \<Rightarrow> Repo \<Rightarrow> int \<Rightarrow> (PullRequest \<times> error option) prog" where
  "getGitlabData c baseRepo pullNum =
     (case GitlabMergeRequestGetter c of
        None \<Rightarrow> return (zero_PullRequest, Some ''Atlantis not configured to support GitLab'')
      | Some getter \<Rightarrow>
          bind (call (GetMergeRequest_ev (FullName baseRepo) pullNum) (getter (FullName baseRepo) pullNum))
            (\<lambda>(mr, err). case err of
                 Some e \<Rightarrow>
                   return (zero_PullRequest,
                           Some (errors_Wrap e ''making merge request API call to GitLab''))
               | None \<Rightarrow>
                   bind (call (ParseGitlabMergeRequest_ev mr baseRepo)
                           (ParseGitlabMergeRequest (EventParser c) mr baseRepo))
                     (\<lambda>pull. return (pull, None))))"

text \<open>
  The switch on the host type of \<^verbatim>\<open>RunCommentCommand\<close> (lines 122--131): the pull, the head
  repository and the error after it. \<open>headRepo\<close> is the head repository before the switch.
\<close>

definition RunCommentCommand_resolve ::
  "DefaultCommandRunner \<Rightarrow> Repo \<Rightarrow> Repo \<Rightarrow> int \<Rightarrow> (PullRequest \<times> Repo \<times> error option) prog" where
  "RunCommentCommand_resolve c baseRepo headRepo pullNum =
     (case Type (Repo_VCSHost baseRepo) of
        Github \<Rightarrow> getGithubData c baseRepo pullNum
      | Gitlab \<Rightarrow> bind (getGitlabData c baseRepo pullNum) (\<lambda>(pull, err). return (pull, headRepo, err))
      | OtherVCSHostType n \<Rightarrow>
          return (zero_PullRequest, headRepo, Some ''Unknown VCS type, this is a bug!''))"

text \<open>The call of \<^verbatim>\<open>updatePull\<close> that ends \<^verbatim>\<open>RunCommentCommand\<close> (lines 174--182).\<close>

definition reportResult ::
  "DefaultCommandRunner \<Rightarrow> CommandContext \<Rightarrow> CommentCommand \<Rightarrow> ProjectCommandResult \<Rightarrow> unit prog" where
  "reportResult c ctx cmd result =
     updatePull c ctx (CommentCmd cmd)
       \<lparr>cr_Error = None, cr_Failure = [],
        ProjectResults = [\<lparr>ProjectCommandResult = result,
                           pr_RepoRelDir = CommentCommand_RepoRelDir cmd,
                           pr_Workspace = CommentCommand_Workspace cmd\<rparr>]\<rparr>"

text \<open>The statements of \<^verbatim>\<open>RunCommentCommand\<close> after its \<^verbatim>\<open>defer\<close> (lines 145--182).\<close>

definition RunCommentCommand_body ::
  "DefaultCommandRunner \<Rightarrow> CommandContext \<Rightarrow> CommentCommand \<Rightarrow> unit prog" where
  "RunCommentCommand_body c ctx cmd =
     bind (validateCtxAndComment c ctx) (\<lambda>ok.
       if \<not> ok then return ()
       else
         seq (updatePending c ctx (CommandName_of (CommentCmd cmd)))
           (case CommentCommand_Name cmd of
              Plan \<Rightarrow>
                bind (call (BuildPlanCommand_ev ctx cmd) (BuildPlanCommand (ProjectCommandBuilder c) ctx cmd))
                  (\<lambda>(projectCmd, err). case err of
                       Some e \<Rightarrow>
                         updatePull c ctx (CommentCmd cmd)
                           \<lparr>cr_Error = Some e, cr_Failure = [], ProjectResults = []\<rparr>
                     | None \<Rightarrow>
                         bind (call (Plan_ev projectCmd) (Runner_Plan (ProjectCommandRunner c) projectCmd))
                           (reportResult c ctx cmd))
            | Apply \<Rightarrow>
                bind (call (BuildApplyCommand_ev ctx cmd) (BuildApplyCommand (ProjectCommandBuilder c) ctx cmd))
                  (\<lambda>(projectCmd, err). case err of
                       Some e \<Rightarrow>
                         updatePull c ctx (CommentCmd cmd)
                           \<lparr>cr_Error = Some e, cr_Failure = [], ProjectResults = []\<rparr>
                     | None \<Rightarrow>
                         bind (call (Apply_ev projectCmd) (Runner_Apply (ProjectCommandRunner c) projectCmd))
                           (reportResult c ctx cmd))
            | OtherCommandName n \<Rightarrow>
                log (ctx_Logger ctx) LvlError
                  ''failed to determine desired command, neither plan nor apply'' []))"

definition RunCommentCommand ::
  "DefaultCommandRunner \<Rightarrow> Logger \<Rightarrow> Repo \<Rightarrow> Repo option \<Rightarrow> User \<Rightarrow> int \<Rightarrow> CommentCommand
     \<Rightarrow> unit outcome \<times> event list" where
  "RunCommentCommand c logger baseRepo maybeHeadRepo user pullNum cmd =
     (let pullLogger = buildLogger logger (FullName baseRepo) pullNum;
          headRepo = (case maybeHeadRepo of Some r \<Rightarrow> r | None \<Rightarrow> zero_Repo)
      in bind (RunCommentCommand_resolve c baseRepo headRepo pullNum)
           (\<lambda>(pull, headRepo, err). case err of
                Some e \<Rightarrow> log pullLogger LvlError e []
              | None \<Rightarrow>
                  let ctx = \<lparr>ctx_User = user, ctx_Logger = pullLogger, ctx_Pull = pull,
                             ctx_HeadRepo = headRepo, ctx_BaseRepo = baseRepo\<rparr>
                  in defer_recover (logPanics c ctx) (RunCommentCommand_body c ctx cmd)) [])"

section \<open>The locks controller (server/locks\_controller.go)\<close>

subsection \<open>Library functions the handlers call\<close>

text \<open>
  \<^verbatim>\<open>url.QueryUnescape\<close> and \<^verbatim>\<open>url.PathUnescape\<close> of Go's net/url are one function,
  \<^verbatim>\<open>unescape(s, mode)\<close>, run in the modes \<^verbatim>\<open>encodeQueryComponent\<close> and
  \<^verbatim>\<open>encodePathSegment\<close>. A \<^verbatim>\<open>%\<close> must be followed by two hexadecimal digits, else the
  result is an \<^verbatim>\<open>EscapeError\<close> holding at most three bytes from the \<^verbatim>\<open>%\<close> on (\<open>Inl\<close>);
  \<^verbatim>\<open>%XY\<close> becomes the byte \<^verbatim>\<open>0xXY\<close>; \<^verbatim>\<open>+\<close> becomes a space in a query component and
  stays \<^verbatim>\<open>+\<close> in a path segment. Strings are lists of bytes.
\<close>

datatype encoding = encodePathSegment | encodeQueryComponent

definition ishex :: "char \<Rightarrow> bool" where
  "ishex c = (let n = (of_char c :: nat) in
      (48 \<le> n \<and> n \<le> 57) \<or> (97 \<le> n \<and> n \<le> 102) \<or> (65 \<le> n \<and> n \<le> 70))"

definition unhex :: "char \<Rightarrow> nat" where
  "unhex c = (let n = (of_char c :: nat) in
      if 48 \<le> n \<and> n \<le> 57 then n - 48
      else if 97 \<le> n \<and> n \<le> 102 then n - 97 + 10
      else if 65 \<le> n \<and> n \<le> 70 then n - 65 + 10
      else 0)"

fun unescape :: "string \<Rightarrow> encoding \<Rightarrow> string + string" where
  "unescape [] mode = Inr []"
| "unescape (c # s) mode =
     (if c = CHR ''%'' then
        (case s of
           h1 # h2 # rest \<Rightarrow>
             if ishex h1 \<and> ishex h2 then
               (case unescape rest mode of
                  Inl e \<Rightarrow> Inl e
                | Inr t \<Rightarrow> Inr (char_of (unhex h1 * 16 + unhex h2) # t))
             else Inl (take 3 (c # s))
         | _ \<Rightarrow> Inl (take 3 (c # s)))
      else if c = CHR ''+'' then
        (case unescape s mode of
           Inl e \<Rightarrow> Inl e
         | Inr t \<Rightarrow> Inr ((if mode = encodeQueryComponent then CHR '' '' else CHR ''+'') # t))
      else
        (case unescape s mode of
           Inl e \<Rightarrow> Inl e
         | Inr t \<Rightarrow> Inr (c # t)))"

definition QueryUnescape :: "string \<Rightarrow> string + string" where
  "QueryUnescape s = unescape s encodeQueryComponent"

definition PathUnescape :: "string \<Rightarrow> string + string" where
  "PathUnescape s = unescape s encodePathSegment"

text \<open>
  \<^verbatim>\<open>strings.Split(s, sep)\<close> for a separator of one byte: the pieces of \<open>s\<close> between the
  occurrences of \<open>sep\<close>, one more than there are occurrences. \<open>piece\<close> is the current
  piece, reversed.
\<close>

fun splitFrom :: "char \<Rightarrow> string \<Rightarrow> string \<Rightarrow> string list" where
  "splitFrom sep piece [] = [rev piece]"
| "splitFrom sep piece (x # s) =
     (if x = sep then rev piece # splitFrom sep [] s else splitFrom sep (x # piece) s)"

definition strings_Split :: "string \<Rightarrow> char \<Rightarrow> string list" where
  "strings_Split s sep = splitFrom sep [] s"

definition panic :: "string \<Rightarrow> 'a prog" where
  "panic p = (\<lambda>t. (Panics p, t))"

text \<open>\<^verbatim>\<open>xs[i]\<close> on a slice: a run-time panic when \<open>i\<close> is out of range.\<close>

definition index :: "'a list \<Rightarrow> nat \<Rightarrow> 'a prog" where
  "index xs i = (if i < length xs then return (xs ! i)
                 else panic ''runtime error: index out of range'')"

subsection \<open>Collaborators\<close>

record Locker =
  Locker_GetLock :: "string \<Rightarrow> (ProjectLock option \<times> error option) outcome"
  Locker_Unlock :: "string \<Rightarrow> (ProjectLock option \<times> error option) outcome"

text \<open>
  \<^verbatim>\<open>TryLock\<close> returns the function that releases the lock, and an error; the function is
  given by what a call of it does.
\<close>

record WorkingDirLocker =
  TryLock :: "string \<Rightarrow> string \<Rightarrow> int \<Rightarrow> (unit outcome \<times> error option) outcome"

record WorkingDir =
  DeleteForWorkspace :: "Repo \<Rightarrow> PullRequest \<Rightarrow> string \<Rightarrow> error option outcome"

record TemplateWriter =
  Execute :: "LockDetailData \<Rightarrow> error option outcome"

text \<open>
  \<open>fmt_q\<close> is the \<^verbatim>\<open>%q\<close> verb of fmt (\<^verbatim>\<open>strconv.Quote\<close>), also used by the text of an
  \<^verbatim>\<open>EscapeError\<close>: library code, a parameter of the model.
\<close>

record LocksController =
  AtlantisVersion :: string
  Locker :: Locker
  Logger :: Logger
  lc_VCSClient :: ClientProxy
  LockDetailTemplate :: TemplateWriter
  WorkingDir :: WorkingDir
  WorkingDirLocker :: WorkingDirLocker
  fmt_q :: "string \<Rightarrow> string"

definition EscapeError_Error :: "LocksController \<Rightarrow> string \<Rightarrow> error" where
  "EscapeError_Error l e = ''invalid URL escape '' @ fmt_q l e"

subsection \<open>The handlers\<close>

definition respond :: "LocksController \<Rightarrow> Lvl \<Rightarrow> nat \<Rightarrow> string \<Rightarrow> unit prog" where
  "respond l lvl responseCode response =
     seq (case lvl of
            LvlDebug \<Rightarrow> log (Logger l) LvlDebug response []
          | LvlInfo \<Rightarrow> log (Logger l) LvlInfo response []
          | LvlWarn \<Rightarrow> log (Logger l) LvlWarn response []
          | LvlError \<Rightarrow> log (Logger l) LvlError response []
          | LvlCrit \<Rightarrow> return ())
    (seq (emit (WriteHeader_ev responseCode))
         (emit (Fprintln_ev response)))"

text \<open>\<open>vars\<close> is \<^verbatim>\<open>mux.Vars(r)\<close>, the variables of the route.\<close>

definition GetLock :: "LocksController \<Rightarrow> (string \<rightharpoonup> string) \<Rightarrow> unit prog" where
  "GetLock l vars =
     (case vars ''id'' of
        None \<Rightarrow> respond l LvlWarn 400 ''No lock id in request''
      | Some id' \<Rightarrow>
          (case QueryUnescape id' of
             Inl err \<Rightarrow> respond l LvlWarn 400 (''Invalid lock id: '' @ EscapeError_Error l err)
           | Inr idUnencoded \<Rightarrow>
               bind (call (Locker_GetLock_ev idUnencoded) (Locker_GetLock (Locker l) idUnencoded))
                 (\<lambda>(lock, err). case err of
                      Some e \<Rightarrow> respond l LvlError 500 (''Failed getting lock: '' @ e)
                    | None \<Rightarrow>
                        (case lock of
                           None \<Rightarrow> respond l LvlInfo 404 (''No lock found at id '' @ fmt_q l idUnencoded)
                         | Some lock \<Rightarrow>
                             (let repo = strings_Split (RepoFullName (lock_Project lock)) CHR ''/'' in
                              bind (index repo 0) (\<lambda>repo0.
                              bind (index repo 1) (\<lambda>repo1.
                              bind (call (Execute_ev
                                       \<lparr>LockKeyEncoded = id', LockKey = idUnencoded,
                                        RepoOwner = repo0, RepoName = repo1,
                                        PullRequestLink = URL (lock_Pull lock),
                                        LockedBy = Author (lock_Pull lock),
                                        ldd_Workspace = lock_Workspace lock,
                                        ldd_AtlantisVersion = AtlantisVersion l\<rparr>)
                                     (Execute (LockDetailTemplate l)
                                       \<lparr>LockKeyEncoded = id', LockKey = idUnencoded,
                                        RepoOwner = repo0, RepoName = repo1,
                                        PullRequestLink = URL (lock_Pull lock),
                                        LockedBy = Author (lock_Pull lock),
                                        ldd_Workspace = lock_Workspace lock,
                                        ldd_AtlantisVersion = AtlantisVersion l\<rparr>))
                                (\<lambda>_. return ()))))))))"

text \<open>
  The end of \<^verbatim>\<open>DeleteLock\<close> for a lock with a base repository (lines 103--110 and 114):
  the comment on the pull request and the response.
\<close>

definition discardedComment :: "ProjectLock \<Rightarrow> string" where
  "discardedComment lock =
     ''**Warning**: The plan for dir: `'' @ Path (lock_Project lock)
       @ ''` workspace: `'' @ lock_Workspace lock
       @ ''` was **discarded** via the Atlantis UI.'' @ [CHR 0x0A, CHR 0x0A]
       @ ''To `apply` you must run `plan` again.''"

definition DeleteLock_comment :: "LocksController \<Rightarrow> ProjectLock \<Rightarrow> string \<Rightarrow> unit prog" where
  "DeleteLock_comment l lock id' =
     bind (call (CreateComment_ev (Pull_BaseRepo (lock_Pull lock)) (Num (lock_Pull lock))
                   (discardedComment lock))
             (CreateComment (lc_VCSClient l) (Pull_BaseRepo (lock_Pull lock)) (Num (lock_Pull lock))
                   (discardedComment lock)))
       (\<lambda>err. case err of
            Some e \<Rightarrow> respond l LvlError 500 (''Failed commenting on pull request: '' @ e)
          | None \<Rightarrow> respond l LvlInfo 200 (''Deleted lock id '' @ fmt_q l id'))"

text \<open>A \<^verbatim>\<open>nil\<close> error as a log value is printed \<^verbatim>\<open>nil\<close>.\<close>

definition err_text :: "error option \<Rightarrow> string" where
  "err_text err = (case err of None \<Rightarrow> ''nil'' | Some e \<Rightarrow> e)"

definition DeleteLock :: "LocksController \<Rightarrow> (string \<rightharpoonup> string) \<Rightarrow> unit prog" where
  "DeleteLock l vars =
     (case vars ''id'' of
        None \<Rightarrow> respond l LvlWarn 400 ''No lock id in request''
      | Some id' \<Rightarrow>
          if id' = [] then respond l LvlWarn 400 ''No lock id in request''
          else
          (case PathUnescape id' of
             Inl err \<Rightarrow>
               respond l LvlWarn 400
                 (''Invalid lock id '' @ fmt_q l id' @ ''. Failed with error: '' @ EscapeError_Error l err)
           | Inr idUnencoded \<Rightarrow>
               bind (call (Locker_Unlock_ev idUnencoded) (Locker_Unlock (Locker l) idUnencoded))
                 (\<lambda>(lock, err). case err of
                      Some e \<Rightarrow> respond l LvlError 500 (''deleting lock failed with: '' @ e)
                    | None \<Rightarrow>
                        (case lock of
                           None \<Rightarrow> respond l LvlInfo 404 (''No lock found at id '' @ fmt_q l idUnencoded)
                         | Some lock \<Rightarrow>
                             if Pull_BaseRepo (lock_Pull lock) \<noteq> zero_Repo then
                               bind (call (TryLock_ev (FullName (Pull_BaseRepo (lock_Pull lock)))
                                             (lock_Workspace lock) (Num (lock_Pull lock)))
                                       (TryLock (WorkingDirLocker l) (FullName (Pull_BaseRepo (lock_Pull lock)))
                                             (lock_Workspace lock) (Num (lock_Pull lock))))
                                 (\<lambda>(unlock, err). case err of
                                      Some e \<Rightarrow>
                                        seq (log (Logger l) LvlError
                                               ''unable to obtain working dir lock when trying to delete old plans''
                                               [(''err'', e)])
                                            (DeleteLock_comment l lock id')
                                    | None \<Rightarrow>
                                        defer_call
                                          (call (unlock_ev (FullName (Pull_BaseRepo (lock_Pull lock)))
                                                   (lock_Workspace lock) (Num (lock_Pull lock))) unlock)
                                          (bind (call (DeleteForWorkspace_ev (Pull_BaseRepo (lock_Pull lock))
                                                         (lock_Pull lock) (lock_Workspace lock))
                                                   (DeleteForWorkspace (WorkingDir l) (Pull_BaseRepo (lock_Pull lock))
                                                         (lock_Pull lock) (lock_Workspace lock)))
                                             (\<lambda>err.
                                                seq (log (Logger l) LvlError ''unable to delete workspace''
                                                       [(''err'', err_text err)])
                                                    (DeleteLock_comment l lock id'))))
                             else
                               seq (log (Logger l) LvlDebug
                                      ''skipping commenting on pull request and deleting workspace because BaseRepo field is empty''
                                      [])
                                   (respond l LvlInfo 200 (''Deleted lock id '' @ fmt_q l id'))))))"

subsection \<open>What the client of a handler receives\<close>

text \<open>
  The status of the response (net/http): the code of the first \<^verbatim>\<open>WriteHeader\<close>; without
  one, 200 when the handler returns, and no response at all when the handler panics (the
  server recovers and closes the connection).
\<close>

fun written_status :: "event list \<Rightarrow> nat option" where
  "written_status [] = None"
| "written_status (WriteHeader_ev code # t) = Some code"
| "written_status (e # t) = written_status t"

definition response_status :: "unit outcome \<times> event list \<Rightarrow> nat option" where
  "response_status r =
     (case written_status (snd r) of
        Some code \<Rightarrow> Some code
      | None \<Rightarrow> (case fst r of Returns x \<Rightarrow> Some 200 | Panics p \<Rightarrow> None))"

fun is_store_access :: "event \<Rightarrow> bool" where
  "is_store_access (Locker_GetLock_ev k) = True"
| "is_store_access (Locker_Unlock_ev k) = True"
| "is_store_access e = False"

fun is_cleanup_or_comment :: "event \<Rightarrow> bool" where
  "is_cleanup_or_comment (TryLock_ev r w n) = True"
| "is_cleanup_or_comment (unlock_ev r w n) = True"
| "is_cleanup_or_comment (DeleteForWorkspace_ev r p w) = True"
| "is_cleanup_or_comment (CreateComment_ev r n s) = True"
| "is_cleanup_or_comment e = False"

section \<open>Concrete values\<close>

subsection \<open>A locks controller and its requests\<close>

definition demo_repo :: Repo where
  "demo_repo = \<lparr>FullName = ''org/repo'', Owner = ''org'', Repo_Name = ''repo'',
     Repo_VCSHost = \<lparr>Hostname = ''github.com'', Type = Github\<rparr>\<rparr>"

definition demo_pull :: PullRequest where
  "demo_pull = \<lparr>Num = 5, State = Open, Pull_BaseRepo = demo_repo,
     URL = ''https://github.com/org/repo/pull/5'', Author = ''lkysow''\<rparr>"

definition demo_lock :: ProjectLock where
  "demo_lock = \<lparr>lock_Project = \<lparr>RepoFullName = ''org/repo'', Path = ''.''\<rparr>,
     lock_Pull = demo_pull, lock_User = \<lparr>Username = ''lkysow''\<rparr>, lock_Workspace = ''default''\<rparr>"

text \<open>A lock written before pull requests carried their base repository.\<close>

definition legacy_lock :: ProjectLock where
  "legacy_lock = demo_lock\<lparr>lock_Pull := demo_pull\<lparr>Pull_BaseRepo := zero_Repo\<rparr>\<rparr>"

text \<open>Two locks whose repository full name has no slash.\<close>

definition flat_lock :: ProjectLock where
  "flat_lock = demo_lock\<lparr>lock_Project := \<lparr>RepoFullName = ''monorepo'', Path = ''.''\<rparr>\<rparr>"


text \<open>
  A controller whose store answers every key with \<open>stored\<close> and \<open>storeErr\<close>, whose
  working-directory locker, workspace deletion and comment client answer with the given
  errors, and whose template renders.
\<close>

definition demo_controller ::
  "ProjectLock option \<Rightarrow> error option \<Rightarrow> error option \<Rightarrow> error option \<Rightarrow> error option
     \<Rightarrow> LocksController" where
  "demo_controller stored storeErr lockErr deleteErr commentErr =
     \<lparr>AtlantisVersion = ''0.4.0'',
      Locker = \<lparr>Locker_GetLock = (\<lambda>k. Returns (stored, storeErr)),
                 Locker_Unlock = (\<lambda>k. Returns (stored, storeErr))\<rparr>,
      Logger = \<lparr>Ctx = [], GetHandler = RootHandler\<rparr>,
      lc_VCSClient = \<lparr>CreateComment = (\<lambda>r n s. Returns commentErr)\<rparr>,
      LockDetailTemplate = \<lparr>Execute = (\<lambda>d. Returns None)\<rparr>,
      WorkingDir = \<lparr>DeleteForWorkspace = (\<lambda>r p w. Returns deleteErr)\<rparr>,
      WorkingDirLocker = \<lparr>TryLock = (\<lambda>r w n. Returns (Returns (), lockErr))\<rparr>,
      fmt_q = (\<lambda>s. CHR 0x22 # s @ [CHR 0x22])\<rparr>"

definition route_vars :: "string \<Rightarrow> (string \<rightharpoonup> string)" where
  "route_vars id' = [''id'' \<mapsto> id']"

subsection \<open>A command runner and its triggers\<close>

definition demo_logger :: Logger where
  "demo_logger = \<lparr>Ctx = [], GetHandler = RootHandler\<rparr>"

definition demo_user :: User where
  "demo_user = \<lparr>Username = ''lkysow''\<rparr>"

definition fork_repo :: Repo where
  "fork_repo = \<lparr>FullName = ''contributor/repo'', Owner = ''contributor'', Repo_Name = ''repo'',
     Repo_VCSHost = \<lparr>Hostname = ''github.com'', Type = Github\<rparr>\<rparr>"

definition gitlab_repo :: Repo where
  "gitlab_repo = \<lparr>FullName = ''group/project'', Owner = ''group'', Repo_Name = ''project'',
     Repo_VCSHost = \<lparr>Hostname = ''gitlab.com'', Type = Gitlab\<rparr>\<rparr>"

definition closed_pull :: PullRequest where
  "closed_pull = demo_pull\<lparr>State := Closed\<rparr>"

definition unit_a :: ProjectCommandContext where
  "unit_a = \<lparr>RepoRelDir = ''a'', Workspace = ''default'', ProjectConfig = []\<rparr>"

definition unit_b :: ProjectCommandContext where
  "unit_b = \<lparr>RepoRelDir = ''b'', Workspace = ''staging'', ProjectConfig = []\<rparr>"

text \<open>A project runner that fails in directory \<^verbatim>\<open>a\<close> and succeeds elsewhere.\<close>

definition fails_in_a :: "ProjectCommandContext \<Rightarrow> ProjectCommandResult outcome" where
  "fails_in_a cmd =
     Returns (if RepoRelDir cmd = ''a''
              then \<lparr>pcr_Error = Some ''exit status 1'', pcr_Failure = [], pcr_Output = []\<rparr>
              else \<lparr>pcr_Error = None, pcr_Failure = [], pcr_Output = ''No changes.''\<rparr>)"

text \<open>A project runner that panics.\<close>

definition panicking :: "ProjectCommandContext \<Rightarrow> ProjectCommandResult outcome" where
  "panicking cmd = Panics ''boom''"

definition github_getter :: "Repo \<Rightarrow> int \<Rightarrow> (github_PullRequest \<times> error option) outcome" where
  "github_getter repo pullNum = Returns (GithubPullRequest ''payload'', None)"

definition nil_client_getter :: "Repo \<Rightarrow> int \<Rightarrow> (github_PullRequest \<times> error option) outcome" where
  "nil_client_getter repo pullNum = Panics ''invalid memory address or nil pointer dereference''"

text \<open>
  A runner with the given GitHub pull getter and no GitLab getter, whose parser answers
  with \<open>pull\<close> and \<open>headRepo\<close>, whose builder gives the units \<open>unit_a\<close> and \<open>unit_b\<close> to an
  autoplan and \<open>unit_a\<close> to a comment command, and whose project runner is \<open>run\<close>; status
  updates, rendering and comments succeed; fork pull requests are not allowed.
\<close>

definition demo_runner ::
  "(Repo \<Rightarrow> int \<Rightarrow> (github_PullRequest \<times> error option) outcome) option \<Rightarrow> PullRequest \<Rightarrow> Repo
     \<Rightarrow> (ProjectCommandContext \<Rightarrow> ProjectCommandResult outcome) \<Rightarrow> DefaultCommandRunner" where
  "demo_runner getter pull headRepo run =
     \<lparr>VCSClient = \<lparr>CreateComment = (\<lambda>r n s. Returns None)\<rparr>,
      GithubPullGetter = getter,
      GitlabMergeRequestGetter = None,
      CommitStatusUpdater = \<lparr>Update = (\<lambda>r p s n. Returns None),
                              UpdateProjectResult = (\<lambda>ctx n res. Returns None)\<rparr>,
      EventParser = \<lparr>ParseGithubPull = (\<lambda>gh. Returns (pull, demo_repo, headRepo, None)),
                      ParseGitlabMergeRequest = (\<lambda>mr r. Returns pull)\<rparr>,
      MarkdownRenderer = \<lparr>Render = (\<lambda>res n history v a. Returns ''Ran Plan'')\<rparr>,
      AllowForkPRs = False,
      AllowForkPRsFlag = ''allow-fork-prs'',
      ProjectCommandBuilder = \<lparr>BuildAutoplanCommands = (\<lambda>ctx. Returns ([unit_a, unit_b], None)),
                                BuildPlanCommand = (\<lambda>ctx cmd. Returns (unit_a, None)),
                                BuildApplyCommand = (\<lambda>ctx cmd. Returns (unit_a, None))\<rparr>,
      ProjectCommandRunner = \<lparr>Runner_Plan = run, Runner_Apply = run\<rparr>,
      Stack_frames = (\<lambda>skip. (''server/events/command_runner.go:100'', []))\<rparr>"

definition plan_comment :: CommentCommand where
  "plan_comment = \<lparr>CommentCommand_Name = Plan, CommentCommand_RepoRelDir = ''a'',
     CommentCommand_Workspace = ''default'', Verbose = False\<rparr>"

definition unknown_comment :: CommentCommand where
  "unknown_comment = plan_comment\<lparr>CommentCommand_Name := OtherCommandName 2\<rparr>"

section \<open>Lemmas\<close>

lemmas prog_defs = return_def bind_def seq_def call_def emit_def log_def get_trace_def panic_def

subsection \<open>Unescaping and splitting\<close>

lemma ishex_not_plus: "ishex h \<Longrightarrow> h \<noteq> CHR ''+''"
  by (auto simp: ishex_def)

lemma unescape_Inr_Cons:
  assumes "unescape (c # s) mode = Inr a"
  shows "(c = CHR ''%'' \<and> (\<exists>h1 h2 rest t. s = h1 # h2 # rest \<and> ishex h1 \<and> ishex h2 \<and>
             unescape rest mode = Inr t \<and> a = char_of (unhex h1 * 16 + unhex h2) # t))
       \<or> (c = CHR ''+'' \<and> (\<exists>t. unescape s mode = Inr t \<and>
             a = (if mode = encodeQueryComponent then CHR '' '' else CHR ''+'') # t))
       \<or> (c \<noteq> CHR ''%'' \<and> c \<noteq> CHR ''+'' \<and> (\<exists>t. unescape s mode = Inr t \<and> a = c # t))"
proof (cases "c = CHR ''%''")
  case True
  with assms show ?thesis
    by (simp split: list.splits if_splits sum.splits)
next
  case False
  with assms show ?thesis
    by (auto split: if_splits sum.splits)
qed

lemma unescape_modes_differ:
  "unescape s encodeQueryComponent = Inr a \<Longrightarrow> unescape s encodePathSegment = Inr b \<Longrightarrow>
   CHR ''+'' \<in> set s \<Longrightarrow> a \<noteq> b"
proof (induction s arbitrary: a b rule: length_induct)
  case (1 s)
  show ?case
  proof (cases s)
    case Nil
    with 1 show ?thesis by simp
  next
    case (Cons c s')
    from 1(2) Cons have qa: "unescape (c # s') encodeQueryComponent = Inr a" by simp
    from 1(3) Cons have pb: "unescape (c # s') encodePathSegment = Inr b" by simp
    consider (pct) "c = CHR ''%''" | (plus) "c = CHR ''+''" | (other) "c \<noteq> CHR ''%''" "c \<noteq> CHR ''+''"
      by blast
    then show ?thesis
    proof cases
      case pct
      from unescape_Inr_Cons[OF qa] pct obtain h1 h2 rest t where
        s': "s' = h1 # h2 # rest" and hx: "ishex h1" "ishex h2"
        and t: "unescape rest encodeQueryComponent = Inr t" and a: "a = char_of (unhex h1 * 16 + unhex h2) # t"
        by auto
      from unescape_Inr_Cons[OF pb] pct s' obtain u where
        u: "unescape rest encodePathSegment = Inr u" and b: "b = char_of (unhex h1 * 16 + unhex h2) # u"
        by auto
      from 1(4) Cons pct s' hx have "CHR ''+'' \<in> set rest"
        using ishex_not_plus by auto
      moreover have "length rest < length s" using Cons s' by simp
      ultimately have "t \<noteq> u" using 1(1) t u by blast
      with a b show ?thesis by simp
    next
      case plus
      from unescape_Inr_Cons[OF qa] plus obtain t where "a = CHR '' '' # t" by auto
      moreover from unescape_Inr_Cons[OF pb] plus obtain u where "b = CHR ''+'' # u" by auto
      ultimately show ?thesis by simp
    next
      case other
      from unescape_Inr_Cons[OF qa] other obtain t where
        t: "unescape s' encodeQueryComponent = Inr t" and a: "a = c # t" by auto
      from unescape_Inr_Cons[OF pb] other obtain u where
        u: "unescape s' encodePathSegment = Inr u" and b: "b = c # u" by auto
      from 1(4) Cons other have "CHR ''+'' \<in> set s'" by auto
      moreover have "length s' < length s" using Cons by simp
      ultimately have "t \<noteq> u" using 1(1) t u by blast
      with a b show ?thesis by simp
    qed
  qed
qed


lemma unescape_wellformed_mode:
  "(\<exists>a. unescape s m1 = Inr a) \<Longrightarrow> (\<exists>b. unescape s m2 = Inr b)"
proof (induction s arbitrary: rule: length_induct)
  case (1 s)
  show ?case
  proof (cases s)
    case Nil
    then show ?thesis by simp
  next
    case (Cons c s')
    from 1(2) Cons obtain a where qa: "unescape (c # s') m1 = Inr a" by auto
    consider (pct) "c = CHR ''%''" | (plus) "c = CHR ''+''" | (other) "c \<noteq> CHR ''%''" "c \<noteq> CHR ''+''"
      by blast
    then show ?thesis
    proof cases
      case pct
      from unescape_Inr_Cons[OF qa] pct obtain h1 h2 rest t where
        s': "s' = h1 # h2 # rest" and hx: "ishex h1" "ishex h2"
        and t: "unescape rest m1 = Inr t"
        by auto
      have "length rest < length s" using Cons s' by simp
      with 1(1) t obtain u where "unescape rest m2 = Inr u" by blast
      with Cons pct s' hx show ?thesis by simp
    next
      case plus
      from unescape_Inr_Cons[OF qa] plus obtain t where t: "unescape s' m1 = Inr t" by auto
      have "length s' < length s" using Cons by simp
      with 1(1) t obtain u where "unescape s' m2 = Inr u" by blast
      with Cons plus show ?thesis by simp
    next
      case other
      from unescape_Inr_Cons[OF qa] other obtain t where t: "unescape s' m1 = Inr t" by auto
      have "length s' < length s" using Cons by simp
      with 1(1) t obtain u where "unescape s' m2 = Inr u" by blast
      with Cons other show ?thesis by simp
    qed
  qed
qed

lemma unescape_no_percent_query:
  "CHR ''%'' \<notin> set s \<Longrightarrow>
   unescape s encodeQueryComponent = Inr (map (\<lambda>c. if c = CHR ''+'' then CHR '' '' else c) s)"
  by (induction s) auto

lemma unescape_no_percent_path:
  "CHR ''%'' \<notin> set s \<Longrightarrow> unescape s encodePathSegment = Inr s"
  by (induction s) auto


lemma splitFrom_no_sep: "sep \<notin> set s \<Longrightarrow> splitFrom sep piece s = [rev piece @ s]"
  by (induction s arbitrary: piece) auto

lemma splitFrom_nonempty: "splitFrom sep piece s \<noteq> []"
  by (induction s arbitrary: piece) auto

lemma splitFrom_sep: "sep \<in> set s \<Longrightarrow> 2 \<le> length (splitFrom sep piece s)"
proof (induction s arbitrary: piece)
  case Nil then show ?case by simp
next
  case (Cons x s)
  show ?case
  proof (cases "x = sep")
    case True
    have "splitFrom sep [] s \<noteq> []" by (rule splitFrom_nonempty)
    then have "1 \<le> length (splitFrom sep [] s)" by (cases "splitFrom sep [] s") auto
    with True show ?thesis by simp
  next
    case False
    with Cons show ?thesis by simp
  qed
qed

lemma strings_Split_sep:
  "sep \<in> set s \<Longrightarrow> \<exists>x y rest. strings_Split s sep = x # y # rest"
proof -
  assume "sep \<in> set s"
  then have "2 \<le> length (strings_Split s sep)"
    by (simp add: strings_Split_def splitFrom_sep)
  then show ?thesis
    by (cases "strings_Split s sep" rule: list.exhaust; simp; cases "tl (strings_Split s sep)"; simp)
qed

subsection \<open>Runs of the handlers\<close>

lemma respond_run:
  "lvl \<noteq> LvlCrit \<Longrightarrow> respond l lvl code msg t =
     (Returns (), t @ [Log_ev lvl msg (Ctx (Logger l)), WriteHeader_ev code, Fprintln_ev msg])"
  by (cases lvl) (simp_all add: respond_def prog_defs)

lemma index_run:
  "index xs i t = (if i < length xs then (Returns (xs ! i), t)
                   else (Panics ''runtime error: index out of range'', t))"
  by (simp add: index_def return_def panic_def)

lemma GetLock_found:
  assumes "vars ''id'' = Some id'" "QueryUnescape id' = Inr key"
    "Locker_GetLock (Locker l) key = Returns (Some lock, None)"
    "strings_Split (RepoFullName (lock_Project lock)) CHR ''/'' = owner # name # rest"
  shows "GetLock l vars [] =
     (case Execute (LockDetailTemplate l)
             \<lparr>LockKeyEncoded = id', LockKey = key, RepoOwner = owner, RepoName = name,
              PullRequestLink = URL (lock_Pull lock), LockedBy = Author (lock_Pull lock),
              ldd_Workspace = lock_Workspace lock, ldd_AtlantisVersion = AtlantisVersion l\<rparr> of
        Returns e \<Rightarrow> Returns () | Panics p \<Rightarrow> Panics p,
      [Locker_GetLock_ev key,
       Execute_ev \<lparr>LockKeyEncoded = id', LockKey = key, RepoOwner = owner, RepoName = name,
              PullRequestLink = URL (lock_Pull lock), LockedBy = Author (lock_Pull lock),
              ldd_Workspace = lock_Workspace lock, ldd_AtlantisVersion = AtlantisVersion l\<rparr>])"
  using assms
  by (simp add: GetLock_def prog_defs index_def split: outcome.splits)


lemma DeleteLock_comment_run:
  assumes "CreateComment (lc_VCSClient l) (Pull_BaseRepo (lock_Pull lock)) (Num (lock_Pull lock))
             (discardedComment lock) = Returns commentErr"
  shows "DeleteLock_comment l lock id' t =
     (Returns (), t @ [CreateComment_ev (Pull_BaseRepo (lock_Pull lock)) (Num (lock_Pull lock)) (discardedComment lock)]
        @ (case commentErr of
             Some e \<Rightarrow> [Log_ev LvlError (''Failed commenting on pull request: '' @ e) (Ctx (Logger l)),
                        WriteHeader_ev 500, Fprintln_ev (''Failed commenting on pull request: '' @ e)]
           | None \<Rightarrow> [Log_ev LvlInfo (''Deleted lock id '' @ fmt_q l id') (Ctx (Logger l)),
                      WriteHeader_ev 200, Fprintln_ev (''Deleted lock id '' @ fmt_q l id')]))"
  using assms
  by (cases commentErr) (simp_all add: DeleteLock_comment_def bind_def call_def respond_run)

lemma GetLock_store_access:
  assumes "vars ''id'' = Some id'" and "QueryUnescape id' = Inr key"
  shows "filter is_store_access (snd (GetLock l vars [])) = [Locker_GetLock_ev key]"
  using assms
  by (simp add: GetLock_def bind_def call_def return_def respond_run index_run Let_def
        split: outcome.splits prod.splits option.splits)

lemma DeleteLock_comment_no_store:
  "filter is_store_access (snd (DeleteLock_comment l lock id' t)) = filter is_store_access t"
  by (simp add: DeleteLock_comment_def bind_def call_def respond_run
        split: outcome.splits prod.splits option.splits)

lemma DeleteLock_comment_no_store':
  "DeleteLock_comment l lock id' t = (r, t') \<Longrightarrow>
     filter is_store_access t' = filter is_store_access t"
  using DeleteLock_comment_no_store[of l lock id' t] by simp

lemma DeleteLock_store_access:
  assumes "vars ''id'' = Some id'" and "id' \<noteq> []" and "PathUnescape id' = Inr key"
  shows "filter is_store_access (snd (DeleteLock l vars [])) = [Locker_Unlock_ev key]"
  using assms
  by (auto simp add: DeleteLock_def bind_def seq_def call_def emit_def log_def return_def
        defer_call_def respond_run DeleteLock_comment_no_store
        split: outcome.splits prod.splits option.splits
        dest: DeleteLock_comment_no_store')


subsection \<open>Runs of the command runner\<close>

lemma comments_append: "comments (t @ u) = comments t @ comments u"
  by (induction t rule: comments.induct) simp_all

lemma planned_append: "planned (t @ u) = planned t @ planned u"
  by (induction t rule: planned.induct) simp_all

lemma History_append: "History (t @ u) = History t @ History u"
  by (induction t rule: History.induct) simp_all

lemma planned_Plan_evs: "planned (map Plan_ev cmds) = cmds"
  by (induction cmds) simp_all

lemma bind_cases:
  assumes "bind m f t = (r, t')"
  obtains (panics) p where "m t = (Panics p, t')" "r = Panics p"
        | (returns) x t1 where "m t = (Returns x, t1)" "f x t1 = (r, t')"
  using assms by (auto simp: bind_def split: prod.splits outcome.splits)

lemma validate_run:
  assumes "\<forall>r n s. \<exists>e. CreateComment (VCSClient c) r n s = Returns e"
  shows "validateCtxAndComment c ctx t =
     (if \<not> AllowForkPRs c \<and> Owner (ctx_HeadRepo ctx) \<noteq> Owner (ctx_BaseRepo ctx) then
        (Returns False,
         t @ [Log_ev LvlInfo ''command was run on a fork pull request which is disallowed''
                (Ctx (ctx_Logger ctx)),
              CreateComment_ev (ctx_BaseRepo ctx) (Num (ctx_Pull ctx))
                (''Atlantis commands can't be run on fork pull requests. To enable, set --''
                   @ AllowForkPRsFlag c)])
      else if State (ctx_Pull ctx) \<noteq> Open then
        (Returns False,
         t @ [Log_ev LvlInfo ''command was run on closed pull request'' (Ctx (ctx_Logger ctx)),
              CreateComment_ev (ctx_BaseRepo ctx) (Num (ctx_Pull ctx))
                ''Atlantis commands can't be run on closed pull requests''])
      else (Returns True, t))"
proof -
  from assms obtain f where f: "\<And>r n s. CreateComment (VCSClient c) r n s = Returns (f r n s)"
    by metis
  show ?thesis
    by (simp add: validateCtxAndComment_def return_def bind_def seq_def call_def emit_def log_def f)
qed

lemma updatePending_frame:
  "updatePending c ctx n t = (r, t') \<Longrightarrow>
     comments t' = comments t \<and> planned t' = planned t"
  by (auto simp: updatePending_def return_def bind_def call_def emit_def log_def
        comments_append planned_append split: outcome.splits option.splits)

lemma planAll_frame:
  "planAll c cmds acc t = (r, t') \<Longrightarrow> comments t' = comments t"
proof (induction cmds arbitrary: acc t)
  case Nil
  then show ?case by (simp add: return_def)
next
  case (Cons cmd cmds)
  from Cons.prems have
    "bind (call (Plan_ev cmd) (Runner_Plan (ProjectCommandRunner c) cmd))
       (\<lambda>res. planAll c cmds (acc @ [\<lparr>ProjectCommandResult = res,
           pr_RepoRelDir = RepoRelDir cmd, pr_Workspace = Workspace cmd\<rparr>])) t = (r, t')"
    by simp
  then show ?case
  proof (cases rule: bind_cases)
    case (panics p)
    then show ?thesis by (auto simp: call_def comments_append)
  next
    case (returns x t1)
    from returns(1) have "comments t1 = comments t" by (auto simp: call_def comments_append)
    with Cons.IH[OF returns(2)] show ?thesis by simp
  qed
qed

lemma planAll_run:
  assumes "\<forall>cmd \<in> set cmds. \<exists>res. Runner_Plan (ProjectCommandRunner c) cmd = Returns res"
  shows "\<exists>results. planAll c cmds acc t = (Returns (acc @ results), t @ map Plan_ev cmds)
           \<and> list_all2 (\<lambda>cmd res. Runner_Plan (ProjectCommandRunner c) cmd
                                      = Returns (ProjectCommandResult res)
                                  \<and> pr_RepoRelDir res = RepoRelDir cmd
                                  \<and> pr_Workspace res = Workspace cmd) cmds results"
  using assms
proof (induction cmds arbitrary: acc t)
  case Nil
  then show ?case by (simp add: return_def)
next
  case (Cons cmd cmds)
  from Cons.prems obtain res where res: "Runner_Plan (ProjectCommandRunner c) cmd = Returns res"
    by auto
  let ?pr = "\<lparr>ProjectCommandResult = res, pr_RepoRelDir = RepoRelDir cmd,
              pr_Workspace = Workspace cmd\<rparr>"
  from Cons.prems have "\<forall>cmd \<in> set cmds. \<exists>res. Runner_Plan (ProjectCommandRunner c) cmd = Returns res"
    by simp
  from Cons.IH[OF this, of "acc @ [?pr]" "t @ [Plan_ev cmd]"] obtain results where
    run: "planAll c cmds (acc @ [?pr]) (t @ [Plan_ev cmd])
            = (Returns ((acc @ [?pr]) @ results), (t @ [Plan_ev cmd]) @ map Plan_ev cmds)"
    and all2: "list_all2 (\<lambda>cmd res. Runner_Plan (ProjectCommandRunner c) cmd
                                      = Returns (ProjectCommandResult res)
                                  \<and> pr_RepoRelDir res = RepoRelDir cmd
                                  \<and> pr_Workspace res = Workspace cmd) cmds results"
    by blast
  have "planAll c (cmd # cmds) acc t = (Returns (acc @ (?pr # results)), t @ map Plan_ev (cmd # cmds))"
    using res run by (simp add: bind_def call_def)
  moreover have "list_all2 (\<lambda>cmd res. Runner_Plan (ProjectCommandRunner c) cmd
                                      = Returns (ProjectCommandResult res)
                                  \<and> pr_RepoRelDir res = RepoRelDir cmd
                                  \<and> pr_Workspace res = Workspace cmd) (cmd # cmds) (?pr # results)"
    using res all2 by simp
  ultimately show ?case by blast
qed

lemma updatePull_frame:
  "updatePull c ctx command res t = (r, t') \<Longrightarrow>
     planned t' = planned t
     \<and> UpdateProjectResult_ev ctx (CommandName_of command) res \<in> set t'"
  by (auto simp: updatePull_def return_def bind_def seq_def call_def emit_def log_def get_trace_def
        planned_append split: outcome.splits option.splits Handler.splits if_splits)

lemma updatePull_comments:
  assumes "\<forall>r n s. \<exists>e. CreateComment (VCSClient c) r n s = Returns e"
    and "GetHandler (ctx_Logger ctx) = HistoryHandler h"
    and "updatePull c ctx command res t = (r, t')"
  shows "(r = Returns () \<and> length (comments t') = Suc (length (comments t)))
       \<or> ((\<exists>p. r = Panics p) \<and> comments t' = comments t)"
proof -
  from assms(1) obtain f where f: "\<And>r n s. CreateComment (VCSClient c) r n s = Returns (f r n s)"
    by metis
  from assms(2,3) show ?thesis
    by (auto simp: updatePull_def return_def bind_def seq_def call_def emit_def log_def get_trace_def
        comments_append f split: outcome.splits option.splits if_splits)
qed

lemma recovery_Stack_nonempty: "recovery_Stack c skip \<noteq> []"
  by (simp add: recovery_Stack_def split: prod.splits)

lemma logPanics_frame:
  "logPanics c ctx recovered t = (r, t') \<Longrightarrow> planned t' = planned t
     \<and> (\<forall>e \<in> set t. e \<in> set t')"
  by (auto simp: logPanics_def return_def bind_def seq_def call_def emit_def log_def Let_def
        planned_append split: outcome.splits option.splits)

lemma logPanics_run:
  assumes "\<forall>r n s. \<exists>e. CreateComment (VCSClient c) r n s = Returns e"
  shows "logPanics c ctx recovered t =
     (case recovered of
        None \<Rightarrow> (Returns (), t)
      | Some p \<Rightarrow>
          (Returns (),
           t @ [CreateComment_ev (ctx_BaseRepo ctx) (Num (ctx_Pull ctx))
                  (panicComment p (recovery_Stack c 3)),
                Log_ev LvlError (''PANIC: '' @ p)
                  (Ctx (ctx_Logger ctx) @ [(''stack'', recovery_Stack c 3)])]))"
proof -
  from assms obtain f where f: "\<And>r n s. CreateComment (VCSClient c) r n s = Returns (f r n s)"
    by metis
  show ?thesis
    by (simp add: logPanics_def return_def bind_def seq_def call_def emit_def log_def Let_def f
          split: option.splits)
qed

lemma RunAutoplanCommand_body_comments:
  assumes cc: "\<forall>r n s. \<exists>e. CreateComment (VCSClient c) r n s = Returns e"
    and h: "GetHandler (ctx_Logger ctx) = HistoryHandler h"
    and run: "RunAutoplanCommand_body c ctx t = (r, t')"
  shows "(r = Returns () \<and> length (comments t') = Suc (length (comments t)))
       \<or> ((\<exists>p. r = Panics p) \<and> comments t' = comments t)"
  using run
  by (auto simp: RunAutoplanCommand_body_def validate_run[OF cc] bind_def seq_def call_def
        return_def comments_append
      split: prod.splits outcome.splits option.splits if_splits
      dest!: updatePending_frame planAll_frame updatePull_comments[OF cc h])

lemma RunCommentCommand_body_comments:
  assumes cc: "\<forall>r n s. \<exists>e. CreateComment (VCSClient c) r n s = Returns e"
    and h: "GetHandler (ctx_Logger ctx) = HistoryHandler h"
    and run: "RunCommentCommand_body c ctx cmd t = (r, t')"
  shows "(r = Returns () \<and> length (comments t') \<le> Suc (length (comments t))
            \<and> (CommentCommand_Name cmd = Plan \<or> CommentCommand_Name cmd = Apply \<longrightarrow>
                  length (comments t') = Suc (length (comments t))))
       \<or> ((\<exists>p. r = Panics p) \<and> comments t' = comments t)"
  using run
  by (auto simp: RunCommentCommand_body_def reportResult_def validate_run[OF cc] bind_def seq_def
        call_def return_def emit_def log_def comments_append
      split: prod.splits outcome.splits option.splits if_splits CommandName.splits
      dest!: updatePending_frame updatePull_comments[OF cc h])

lemma resolve_frame:
  "RunCommentCommand_resolve c baseRepo headRepo pullNum t = (r, t') \<Longrightarrow>
     comments t' = comments t \<and> filter is_status_update t' = filter is_status_update t
     \<and> History t' = History t"
  by (auto simp: RunCommentCommand_resolve_def getGithubData_def getGitlabData_def
        return_def bind_def call_def comments_append History_append
      split: VCSHostType.splits option.splits prod.splits outcome.splits)

lemma defer_logPanics_comments:
  assumes cc: "\<forall>r n s. \<exists>e. CreateComment (VCSClient c) r n s = Returns e"
    and body: "body t = (r, t')"
  shows "length (comments (snd (defer_recover (logPanics c ctx) body t)))
           = length (comments t') + (case r of Returns x \<Rightarrow> 0 | Panics p \<Rightarrow> 1)"
  using body
  by (cases r) (simp_all add: defer_recover_def logPanics_run[OF cc] comments_append)

lemma demo_runner_comments: "\<forall>r n s. \<exists>e. CreateComment (VCSClient (demo_runner g p h run)) r n s = Returns e"
  by (simp add: demo_runner_def)

lemma demo_resolve:
  "RunCommentCommand_resolve (demo_runner (Some github_getter) pull headRepo run) demo_repo hr n []
     = (Returns (pull, headRepo, None),
        [GetPullRequest_ev demo_repo n, ParseGithubPull_ev (GithubPullRequest ''payload'')])"
  by (simp add: RunCommentCommand_resolve_def getGithubData_def demo_runner_def demo_repo_def
        github_getter_def bind_def call_def return_def)

section \<open>Claims about the command runner\<close>

text \<open>
  C1, as amended: when the comment client returns, \<^verbatim>\<open>RunAutoplanCommand\<close> always returns
  normally, and so does \<^verbatim>\<open>RunCommentCommand\<close> once pull resolution has returned a pull
  without error. A panic raised in the statements after the \<^verbatim>\<open>defer\<close> (validation, pending
  status, build, execute, report) is recovered: no comment was posted before it, and the
  run ends with one comment holding the payload and the stack trace, which is not empty,
  followed by one record at error level.
\<close>

theorem logPanics_recovers_after_resolution:
  assumes cc: "\<forall>r n s. \<exists>e. CreateComment (VCSClient c) r n s = Returns e"
    and ctx: "ctx = \<lparr>ctx_User = user, ctx_Logger = buildLogger logger (FullName baseRepo) (Num pull),
                        ctx_Pull = pull, ctx_HeadRepo = headRepo, ctx_BaseRepo = baseRepo\<rparr>"
    and ctx': "ctx' = \<lparr>ctx_User = user, ctx_Logger = buildLogger logger (FullName baseRepo) pullNum,
                         ctx_Pull = pull', ctx_HeadRepo = headRepo', ctx_BaseRepo = baseRepo\<rparr>"
  shows
   "fst (RunAutoplanCommand c logger baseRepo headRepo pull user) = Returns ()
  \<and> (RunAutoplanCommand_body c ctx [] = (Panics p, t) \<longrightarrow>
        RunAutoplanCommand c logger baseRepo headRepo pull user =
          (Returns (),
           t @ [CreateComment_ev baseRepo (Num pull) (panicComment p (recovery_Stack c 3)),
                Log_ev LvlError (''PANIC: '' @ p)
                  (Ctx (ctx_Logger ctx) @ [(''stack'', recovery_Stack c 3)])])
      \<and> comments t = []
      \<and> recovery_Stack c 3 \<noteq> [])
  \<and> (RunCommentCommand_resolve c baseRepo (case maybeHeadRepo of Some r \<Rightarrow> r | None \<Rightarrow> zero_Repo)
           pullNum [] = (Returns (pull', headRepo', None), pre) \<longrightarrow>
        fst (RunCommentCommand c logger baseRepo maybeHeadRepo user pullNum cmd) = Returns ()
      \<and> (RunCommentCommand_body c ctx' cmd pre = (Panics p, t) \<longrightarrow>
            RunCommentCommand c logger baseRepo maybeHeadRepo user pullNum cmd =
              (Returns (),
               t @ [CreateComment_ev baseRepo (Num pull') (panicComment p (recovery_Stack c 3)),
                    Log_ev LvlError (''PANIC: '' @ p)
                      (Ctx (ctx_Logger ctx') @ [(''stack'', recovery_Stack c 3)])])
          \<and> comments t = []
          \<and> recovery_Stack c 3 \<noteq> []))"
proof (intro conjI impI)
  have h: "GetHandler (ctx_Logger ctx) = HistoryHandler (GetHandler logger)"
    using ctx by (simp add: buildLogger_def)
  have h': "GetHandler (ctx_Logger ctx') = HistoryHandler (GetHandler logger)"
    using ctx' by (simp add: buildLogger_def)
  have auto_eq: "RunAutoplanCommand c logger baseRepo headRepo pull user =
      defer_recover (logPanics c ctx) (RunAutoplanCommand_body c ctx) []"
    using ctx by (simp add: RunAutoplanCommand_def Let_def)
  show "fst (RunAutoplanCommand c logger baseRepo headRepo pull user) = Returns ()"
    unfolding auto_eq
    by (simp add: defer_recover_def logPanics_run[OF cc] split: prod.splits outcome.splits)
  {
    assume b: "RunAutoplanCommand_body c ctx [] = (Panics p, t)"
    from b show "RunAutoplanCommand c logger baseRepo headRepo pull user =
          (Returns (),
           t @ [CreateComment_ev baseRepo (Num pull) (panicComment p (recovery_Stack c 3)),
                Log_ev LvlError (''PANIC: '' @ p)
                  (Ctx (ctx_Logger ctx) @ [(''stack'', recovery_Stack c 3)])])"
      unfolding auto_eq using ctx
      by (simp add: defer_recover_def logPanics_run[OF cc])
    from RunAutoplanCommand_body_comments[OF cc h b] show "comments t = []" by simp
    show "recovery_Stack c 3 \<noteq> []" by (rule recovery_Stack_nonempty)
  }
  {
    assume res: "RunCommentCommand_resolve c baseRepo
         (case maybeHeadRepo of Some r \<Rightarrow> r | None \<Rightarrow> zero_Repo) pullNum [] = (Returns (pull', headRepo', None), pre)"
    from resolve_frame[OF res] have pre: "comments pre = []" by simp
    have com_eq: "RunCommentCommand c logger baseRepo maybeHeadRepo user pullNum cmd =
        defer_recover (logPanics c ctx') (RunCommentCommand_body c ctx' cmd) pre"
      using ctx' res by (simp add: RunCommentCommand_def Let_def bind_def)
    show "fst (RunCommentCommand c logger baseRepo maybeHeadRepo user pullNum cmd) = Returns ()"
      unfolding com_eq
      by (simp add: defer_recover_def logPanics_run[OF cc] split: prod.splits outcome.splits)
    {
      assume b: "RunCommentCommand_body c ctx' cmd pre = (Panics p, t)"
      from b show "RunCommentCommand c logger baseRepo maybeHeadRepo user pullNum cmd =
              (Returns (),
               t @ [CreateComment_ev baseRepo (Num pull') (panicComment p (recovery_Stack c 3)),
                    Log_ev LvlError (''PANIC: '' @ p)
                      (Ctx (ctx_Logger ctx') @ [(''stack'', recovery_Stack c 3)])])"
        unfolding com_eq using ctx'
        by (simp add: defer_recover_def logPanics_run[OF cc])
      from RunCommentCommand_body_comments[OF cc h' b] pre show "comments t = []" by simp
      show "recovery_Stack c 3 \<noteq> []" by (rule recovery_Stack_nonempty)
    }
  }
qed

theorem logPanics_recovers_after_resolution_witness:
  "RunAutoplanCommand (demo_runner None demo_pull demo_repo panicking) demo_logger demo_repo demo_repo
      demo_pull demo_user
    = (Returns (),
       [Update_ev demo_repo demo_pull Pending Plan,
        BuildAutoplanCommands_ev
          \<lparr>ctx_User = demo_user, ctx_Logger = buildLogger demo_logger (FullName demo_repo) (Num demo_pull),
           ctx_Pull = demo_pull, ctx_HeadRepo = demo_repo, ctx_BaseRepo = demo_repo\<rparr>,
        Plan_ev unit_a,
        CreateComment_ev demo_repo 5 (panicComment ''boom'' (''server/events/command_runner.go:100'' @ [CHR 0x0A])),
        Log_ev LvlError ''PANIC: boom''
          (Ctx (buildLogger demo_logger (FullName demo_repo) (Num demo_pull))
             @ [(''stack'', (''server/events/command_runner.go:100'' @ [CHR 0x0A]))])])
   \<and> fst (RunCommentCommand (demo_runner (Some github_getter) demo_pull demo_repo panicking)
          demo_logger demo_repo None demo_user 5 plan_comment) = Returns ()
   \<and> comments (snd (RunCommentCommand (demo_runner (Some github_getter) demo_pull demo_repo panicking)
          demo_logger demo_repo None demo_user 5 plan_comment))
       = [(demo_repo, 5, panicComment ''boom'' (''server/events/command_runner.go:100'' @ [CHR 0x0A]))]"
proof -
  let ?c = "demo_runner None demo_pull demo_repo panicking"
  let ?ctx = "\<lparr>ctx_User = demo_user,
                 ctx_Logger = buildLogger demo_logger (FullName demo_repo) (Num demo_pull),
                 ctx_Pull = demo_pull, ctx_HeadRepo = demo_repo, ctx_BaseRepo = demo_repo\<rparr>"
  have body: "RunAutoplanCommand_body ?c ?ctx [] =
      (Panics ''boom'', [Update_ev demo_repo demo_pull Pending Plan,
                         BuildAutoplanCommands_ev ?ctx, Plan_ev unit_a])"
    by (simp add: RunAutoplanCommand_body_def validateCtxAndComment_def updatePending_def
          demo_runner_def demo_pull_def panicking_def bind_def seq_def return_def call_def)
  have stack: "recovery_Stack ?c 3 = (''server/events/command_runner.go:100'' @ [CHR 0x0A])" "Num demo_pull = 5"
    by (simp_all add: recovery_Stack_def demo_runner_def demo_pull_def)
  from logPanics_recovers_after_resolution
       [where c = ?c and user = demo_user and logger = demo_logger and baseRepo = demo_repo
        and pull = demo_pull and headRepo = demo_repo and ctx = ?ctx and p = "''boom''"
        and t = "[Update_ev demo_repo demo_pull Pending Plan, BuildAutoplanCommands_ev ?ctx,
                  Plan_ev unit_a]",
        OF demo_runner_comments refl refl]
    body stack
  have first: "RunAutoplanCommand ?c demo_logger demo_repo demo_repo demo_pull demo_user
    = (Returns (),
       [Update_ev demo_repo demo_pull Pending Plan, BuildAutoplanCommands_ev ?ctx, Plan_ev unit_a,
        CreateComment_ev demo_repo 5 (panicComment ''boom'' (''server/events/command_runner.go:100'' @ [CHR 0x0A])),
        Log_ev LvlError ''PANIC: boom''
          (Ctx (buildLogger demo_logger (FullName demo_repo) (Num demo_pull))
             @ [(''stack'', (''server/events/command_runner.go:100'' @ [CHR 0x0A]))])])"
    by simp
  let ?d = "demo_runner (Some github_getter) demo_pull demo_repo panicking"
  let ?ctx' = "\<lparr>ctx_User = demo_user, ctx_Logger = buildLogger demo_logger (FullName demo_repo) 5,
                  ctx_Pull = demo_pull, ctx_HeadRepo = demo_repo, ctx_BaseRepo = demo_repo\<rparr>"
  have body': "RunCommentCommand_body ?d ?ctx' plan_comment
        [GetPullRequest_ev demo_repo 5, ParseGithubPull_ev (GithubPullRequest ''payload'')] =
      (Panics ''boom'',
       [GetPullRequest_ev demo_repo 5, ParseGithubPull_ev (GithubPullRequest ''payload''),
        Update_ev demo_repo demo_pull Pending Plan, BuildPlanCommand_ev ?ctx' plan_comment,
        Plan_ev unit_a])"
    by (simp add: RunCommentCommand_body_def validateCtxAndComment_def updatePending_def
          demo_runner_def demo_pull_def panicking_def plan_comment_def
          bind_def seq_def return_def call_def)
  have stack': "recovery_Stack ?d 3 = (''server/events/command_runner.go:100'' @ [CHR 0x0A])"
    by (simp add: recovery_Stack_def demo_runner_def)
  from logPanics_recovers_after_resolution
       [where c = ?d and user = demo_user and logger = demo_logger and baseRepo = demo_repo
        and pull' = demo_pull and headRepo' = demo_repo and ctx' = ?ctx' and p = "''boom''"
        and pullNum = 5 and maybeHeadRepo = None and cmd = plan_comment
        and pre = "[GetPullRequest_ev demo_repo 5, ParseGithubPull_ev (GithubPullRequest ''payload'')]"
        and t = "[GetPullRequest_ev demo_repo 5, ParseGithubPull_ev (GithubPullRequest ''payload''),
                  Update_ev demo_repo demo_pull Pending Plan, BuildPlanCommand_ev ?ctx' plan_comment,
                  Plan_ev unit_a]",
        OF demo_runner_comments refl refl]
    demo_resolve[of demo_pull demo_repo panicking zero_Repo 5] body' stack' stack(2)
  have second: "fst (RunCommentCommand ?d demo_logger demo_repo None demo_user 5 plan_comment) = Returns ()
   \<and> comments (snd (RunCommentCommand ?d demo_logger demo_repo None demo_user 5 plan_comment))
       = [(demo_repo, 5, panicComment ''boom'' (''server/events/command_runner.go:100'' @ [CHR 0x0A]))]"
    by (simp add: comments_append)
  from first second show ?thesis by simp
qed

text \<open>
  The claim as first stated also covers pull resolution. In \<^verbatim>\<open>RunCommentCommand\<close> the
  \<^verbatim>\<open>defer\<close> comes after it: a pull getter that panics ends the invocation with that panic
  and without a comment.
\<close>

theorem resolution_panic_escapes_counterexample:
  "fst (RunCommentCommand (demo_runner (Some nil_client_getter) demo_pull demo_repo fails_in_a)
          demo_logger demo_repo None demo_user 5 plan_comment)
     = Panics ''invalid memory address or nil pointer dereference''
   \<and> comments (snd (RunCommentCommand (demo_runner (Some nil_client_getter) demo_pull demo_repo fails_in_a)
          demo_logger demo_repo None demo_user 5 plan_comment)) = []"
  by (simp add: RunCommentCommand_def RunCommentCommand_resolve_def getGithubData_def
        demo_runner_def demo_repo_def nil_client_getter_def bind_def call_def)

text \<open>
  C2, as amended: when the comment client returns, \<^verbatim>\<open>RunAutoplanCommand\<close> posts exactly one
  comment, \<^verbatim>\<open>RunCommentCommand\<close> posts at most one, and exactly one when pull resolution
  returned a pull without error and the command is plan or apply.
\<close>

theorem comment_count_per_invocation:
  assumes cc: "\<forall>r n s. \<exists>e. CreateComment (VCSClient c) r n s = Returns e"
  shows
   "length (comments (snd (RunAutoplanCommand c logger baseRepo headRepo pull user))) = 1
  \<and> length (comments (snd (RunCommentCommand c logger baseRepo maybeHeadRepo user pullNum cmd))) \<le> 1
  \<and> (RunCommentCommand_resolve c baseRepo (case maybeHeadRepo of Some r \<Rightarrow> r | None \<Rightarrow> zero_Repo)
           pullNum [] = (Returns (pull', headRepo', None), t0)
      \<and> (CommentCommand_Name cmd = Plan \<or> CommentCommand_Name cmd = Apply) \<longrightarrow>
        length (comments (snd (RunCommentCommand c logger baseRepo maybeHeadRepo user pullNum cmd))) = 1)"
proof (intro conjI impI)
  let ?ctx = "\<lparr>ctx_User = user, ctx_Logger = buildLogger logger (FullName baseRepo) (Num pull),
                 ctx_Pull = pull, ctx_HeadRepo = headRepo, ctx_BaseRepo = baseRepo\<rparr>"
  have h: "GetHandler (ctx_Logger ?ctx) = HistoryHandler (GetHandler logger)"
    by (simp add: buildLogger_def)
  obtain r t where b: "RunAutoplanCommand_body c ?ctx [] = (r, t)"
    by (cases "RunAutoplanCommand_body c ?ctx []") auto
  have "RunAutoplanCommand c logger baseRepo headRepo pull user =
      defer_recover (logPanics c ?ctx) (RunAutoplanCommand_body c ?ctx) []"
    by (simp add: RunAutoplanCommand_def Let_def)
  with defer_logPanics_comments[where body = "RunAutoplanCommand_body c ?ctx" and t = "[]"
         and ctx = ?ctx, OF cc b] RunAutoplanCommand_body_comments[OF cc h b]
  show "length (comments (snd (RunAutoplanCommand c logger baseRepo headRepo pull user))) = 1"
    by auto
next
  let ?hr = "case maybeHeadRepo of Some r \<Rightarrow> r | None \<Rightarrow> zero_Repo"
  let ?lg = "buildLogger logger (FullName baseRepo) pullNum"
  obtain rr tr where res: "RunCommentCommand_resolve c baseRepo ?hr pullNum [] = (rr, tr)"
    by (cases "RunCommentCommand_resolve c baseRepo ?hr pullNum []") auto
  from resolve_frame[OF res] have tr: "comments tr = []" by simp
  show "length (comments (snd (RunCommentCommand c logger baseRepo maybeHeadRepo user pullNum cmd))) \<le> 1"
  proof (cases rr)
    case (Panics p)
    with res tr show ?thesis
      by (simp add: RunCommentCommand_def Let_def bind_def)
  next
    case (Returns x)
    obtain pl hd' err where x: "x = (pl, hd', err)" by (cases x) auto
    show ?thesis
    proof (cases err)
      case (Some e)
      with res tr Returns x show ?thesis
        by (simp add: RunCommentCommand_def Let_def bind_def emit_def call_def log_def comments_append)
    next
      case None
      let ?ctx = "\<lparr>ctx_User = user, ctx_Logger = ?lg, ctx_Pull = pl, ctx_HeadRepo = hd',
                     ctx_BaseRepo = baseRepo\<rparr>"
      have h: "GetHandler (ctx_Logger ?ctx) = HistoryHandler (GetHandler logger)"
        by (simp add: buildLogger_def)
      obtain r t where b: "RunCommentCommand_body c ?ctx cmd tr = (r, t)"
        by (cases "RunCommentCommand_body c ?ctx cmd tr") auto
      have "RunCommentCommand c logger baseRepo maybeHeadRepo user pullNum cmd =
          defer_recover (logPanics c ?ctx) (RunCommentCommand_body c ?ctx cmd) tr"
        using res Returns x None by (simp add: RunCommentCommand_def Let_def bind_def)
      with defer_logPanics_comments[where body = "RunCommentCommand_body c ?ctx cmd" and t = tr
             and ctx = ?ctx, OF cc b] RunCommentCommand_body_comments[OF cc h b] tr
      show ?thesis by auto
    qed
  qed
next
  let ?hr = "case maybeHeadRepo of Some r \<Rightarrow> r | None \<Rightarrow> zero_Repo"
  let ?lg = "buildLogger logger (FullName baseRepo) pullNum"
  assume a: "RunCommentCommand_resolve c baseRepo ?hr pullNum [] = (Returns (pull', headRepo', None), t0)
      \<and> (CommentCommand_Name cmd = Plan \<or> CommentCommand_Name cmd = Apply)"
  then have res: "RunCommentCommand_resolve c baseRepo ?hr pullNum [] = (Returns (pull', headRepo', None), t0)"
    and name: "CommentCommand_Name cmd = Plan \<or> CommentCommand_Name cmd = Apply"
    by simp_all
  from resolve_frame[OF res] have t0: "comments t0 = []" by simp
  let ?ctx = "\<lparr>ctx_User = user, ctx_Logger = ?lg, ctx_Pull = pull', ctx_HeadRepo = headRepo',
                 ctx_BaseRepo = baseRepo\<rparr>"
  have h: "GetHandler (ctx_Logger ?ctx) = HistoryHandler (GetHandler logger)"
    by (simp add: buildLogger_def)
  obtain r t where b: "RunCommentCommand_body c ?ctx cmd t0 = (r, t)"
    by (cases "RunCommentCommand_body c ?ctx cmd t0") auto
  have "RunCommentCommand c logger baseRepo maybeHeadRepo user pullNum cmd =
      defer_recover (logPanics c ?ctx) (RunCommentCommand_body c ?ctx cmd) t0"
    using res by (simp add: RunCommentCommand_def Let_def bind_def)
  with defer_logPanics_comments[where body = "RunCommentCommand_body c ?ctx cmd" and t = t0
         and ctx = ?ctx, OF cc b] RunCommentCommand_body_comments[OF cc h b] t0 name
  show "length (comments (snd (RunCommentCommand c logger baseRepo maybeHeadRepo user pullNum cmd))) = 1"
    by auto
qed

theorem comment_count_per_invocation_witness:
  "length (comments (snd (RunAutoplanCommand (demo_runner (Some github_getter) demo_pull demo_repo fails_in_a)
       demo_logger demo_repo demo_repo demo_pull demo_user))) = 1
   \<and> length (comments (snd (RunCommentCommand (demo_runner (Some github_getter) demo_pull demo_repo fails_in_a)
       demo_logger demo_repo None demo_user 5 plan_comment))) = 1"
  using comment_count_per_invocation[OF demo_runner_comments, of "Some github_getter" demo_pull demo_repo fails_in_a
      demo_logger demo_repo demo_repo demo_pull demo_user None 5 plan_comment demo_pull demo_repo
      "[GetPullRequest_ev demo_repo 5, ParseGithubPull_ev (GithubPullRequest ''payload'')]"]
    demo_resolve[of demo_pull demo_repo fails_in_a zero_Repo 5]
  by (simp add: plan_comment_def)

text \<open>
  The claim as first stated has no path without a comment after validation. A comment
  command whose name is neither plan nor apply passes resolution and validation, gets its
  pending status, is logged at error level and posts nothing.
\<close>

theorem unknown_command_posts_no_comment_counterexample:
  "RunCommentCommand_resolve (demo_runner (Some github_getter) demo_pull demo_repo fails_in_a)
       demo_repo zero_Repo 5 []
     = (Returns (demo_pull, demo_repo, None),
        [GetPullRequest_ev demo_repo 5, ParseGithubPull_ev (GithubPullRequest ''payload'')])
   \<and> fst (RunCommentCommand (demo_runner (Some github_getter) demo_pull demo_repo fails_in_a)
       demo_logger demo_repo None demo_user 5 unknown_comment) = Returns ()
   \<and> comments (snd (RunCommentCommand (demo_runner (Some github_getter) demo_pull demo_repo fails_in_a)
       demo_logger demo_repo None demo_user 5 unknown_comment)) = []"
proof -
  let ?c = "demo_runner (Some github_getter) demo_pull demo_repo fails_in_a"
  have res: "RunCommentCommand_resolve ?c demo_repo zero_Repo 5 []
     = (Returns (demo_pull, demo_repo, None),
        [GetPullRequest_ev demo_repo 5, ParseGithubPull_ev (GithubPullRequest ''payload'')])"
    by (rule demo_resolve)
  let ?ctx = "\<lparr>ctx_User = demo_user, ctx_Logger = buildLogger demo_logger (FullName demo_repo) 5,
         ctx_Pull = demo_pull, ctx_HeadRepo = demo_repo, ctx_BaseRepo = demo_repo\<rparr>"
  let ?t0 = "[GetPullRequest_ev demo_repo 5, ParseGithubPull_ev (GithubPullRequest ''payload'')]"
  have whole: "RunCommentCommand ?c demo_logger demo_repo None demo_user 5 unknown_comment =
      defer_recover (logPanics ?c ?ctx) (RunCommentCommand_body ?c ?ctx unknown_comment) ?t0"
    by (simp add: RunCommentCommand_def res Let_def bind_def)
  have body: "RunCommentCommand_body ?c ?ctx unknown_comment ?t0 =
      (Returns (), ?t0 @ [Update_ev demo_repo demo_pull Pending (OtherCommandName 2),
         Log_ev LvlError ''failed to determine desired command, neither plan nor apply''
           (Ctx (buildLogger demo_logger (FullName demo_repo) 5))])"
    by (simp add: RunCommentCommand_body_def validateCtxAndComment_def updatePending_def
          unknown_comment_def plan_comment_def demo_runner_def demo_pull_def
          bind_def seq_def return_def call_def emit_def log_def)
  have "RunCommentCommand ?c demo_logger demo_repo None demo_user 5 unknown_comment =
    (Returns (), ?t0 @ [Update_ev demo_repo demo_pull Pending (OtherCommandName 2),
         Log_ev LvlError ''failed to determine desired command, neither plan nor apply''
           (Ctx (buildLogger demo_logger (FullName demo_repo) 5))])"
    unfolding whole by (simp add: defer_recover_def body logPanics_def return_def)
  with res show ?thesis by simp
qed

text \<open>
  C6: when the comment client returns and the context fails validation (the head
  repository's owner differs from the base repository's while fork pull requests are not
  allowed, or the pull request is not open), the invocation returns after exactly one
  comment, which explains the rejection, with no commit-status update, and its only log
  record is at info level.
\<close>

theorem validation_failure_is_one_info_comment:
  assumes cc: "\<forall>r n s. \<exists>e. CreateComment (VCSClient c) r n s = Returns e"
  shows
   "((\<not> AllowForkPRs c \<and> Owner headRepo \<noteq> Owner baseRepo) \<or> State pull \<noteq> Open \<longrightarrow>
       fst (RunAutoplanCommand c logger baseRepo headRepo pull user) = Returns ()
     \<and> comments (snd (RunAutoplanCommand c logger baseRepo headRepo pull user)) =
         [(baseRepo, Num pull,
           if \<not> AllowForkPRs c \<and> Owner headRepo \<noteq> Owner baseRepo
           then ''Atlantis commands can't be run on fork pull requests. To enable, set --''
                  @ AllowForkPRsFlag c
           else ''Atlantis commands can't be run on closed pull requests'')]
     \<and> filter is_status_update (snd (RunAutoplanCommand c logger baseRepo headRepo pull user)) = []
     \<and> map fst (History (snd (RunAutoplanCommand c logger baseRepo headRepo pull user))) = [LvlInfo])
  \<and> (RunCommentCommand_resolve c baseRepo (case maybeHeadRepo of Some r \<Rightarrow> r | None \<Rightarrow> zero_Repo)
         pullNum [] = (Returns (pull', headRepo', None), t0)
      \<and> ((\<not> AllowForkPRs c \<and> Owner headRepo' \<noteq> Owner baseRepo) \<or> State pull' \<noteq> Open) \<longrightarrow>
       fst (RunCommentCommand c logger baseRepo maybeHeadRepo user pullNum cmd) = Returns ()
     \<and> comments (snd (RunCommentCommand c logger baseRepo maybeHeadRepo user pullNum cmd)) =
         [(baseRepo, Num pull',
           if \<not> AllowForkPRs c \<and> Owner headRepo' \<noteq> Owner baseRepo
           then ''Atlantis commands can't be run on fork pull requests. To enable, set --''
                  @ AllowForkPRsFlag c
           else ''Atlantis commands can't be run on closed pull requests'')]
     \<and> filter is_status_update (snd (RunCommentCommand c logger baseRepo maybeHeadRepo user pullNum cmd)) = []
     \<and> map fst (History (snd (RunCommentCommand c logger baseRepo maybeHeadRepo user pullNum cmd)))
         = [LvlInfo])"
proof (intro conjI impI)
  assume inv: "(\<not> AllowForkPRs c \<and> Owner headRepo \<noteq> Owner baseRepo) \<or> State pull \<noteq> Open"
  let ?run = "RunAutoplanCommand c logger baseRepo headRepo pull user"
  from inv have "\<exists>msg words. ?run =
      (Returns (), [Log_ev LvlInfo msg (Ctx (buildLogger logger (FullName baseRepo) (Num pull))),
                    CreateComment_ev baseRepo (Num pull) words])
     \<and> words = (if \<not> AllowForkPRs c \<and> Owner headRepo \<noteq> Owner baseRepo
           then ''Atlantis commands can't be run on fork pull requests. To enable, set --''
                  @ AllowForkPRsFlag c
           else ''Atlantis commands can't be run on closed pull requests'')"
    by (auto simp: RunAutoplanCommand_def RunAutoplanCommand_body_def Let_def defer_recover_def
          validate_run[OF cc] logPanics_run[OF cc] bind_def return_def)
  then obtain msg words where run: "?run =
      (Returns (), [Log_ev LvlInfo msg (Ctx (buildLogger logger (FullName baseRepo) (Num pull))),
                    CreateComment_ev baseRepo (Num pull) words])"
     and words: "words = (if \<not> AllowForkPRs c \<and> Owner headRepo \<noteq> Owner baseRepo
           then ''Atlantis commands can't be run on fork pull requests. To enable, set --''
                  @ AllowForkPRsFlag c
           else ''Atlantis commands can't be run on closed pull requests'')"
    by blast
  show "fst ?run = Returns ()" by (simp add: run)
  show "comments (snd ?run) = [(baseRepo, Num pull,
           if \<not> AllowForkPRs c \<and> Owner headRepo \<noteq> Owner baseRepo
           then ''Atlantis commands can't be run on fork pull requests. To enable, set --''
                  @ AllowForkPRsFlag c
           else ''Atlantis commands can't be run on closed pull requests'')]"
    unfolding run using words by simp
  show "filter is_status_update (snd ?run) = []" by (simp add: run)
  show "map fst (History (snd ?run)) = [LvlInfo]" by (simp add: run)
next
  assume a: "RunCommentCommand_resolve c baseRepo (case maybeHeadRepo of Some r \<Rightarrow> r | None \<Rightarrow> zero_Repo)
         pullNum [] = (Returns (pull', headRepo', None), t0)
      \<and> ((\<not> AllowForkPRs c \<and> Owner headRepo' \<noteq> Owner baseRepo) \<or> State pull' \<noteq> Open)"
  let ?run = "RunCommentCommand c logger baseRepo maybeHeadRepo user pullNum cmd"
  from a have res: "RunCommentCommand_resolve c baseRepo
      (case maybeHeadRepo of Some r \<Rightarrow> r | None \<Rightarrow> zero_Repo) pullNum [] = (Returns (pull', headRepo', None), t0)"
    by simp
  from resolve_frame[OF res] have t0: "comments t0 = []" "filter is_status_update t0 = []" "History t0 = []"
    by simp_all
  from a have "\<exists>msg words. ?run =
      (Returns (), t0 @ [Log_ev LvlInfo msg (Ctx (buildLogger logger (FullName baseRepo) pullNum)),
                    CreateComment_ev baseRepo (Num pull') words])
     \<and> words = (if \<not> AllowForkPRs c \<and> Owner headRepo' \<noteq> Owner baseRepo
           then ''Atlantis commands can't be run on fork pull requests. To enable, set --''
                  @ AllowForkPRsFlag c
           else ''Atlantis commands can't be run on closed pull requests'')"
    by (auto simp: RunCommentCommand_def RunCommentCommand_body_def Let_def defer_recover_def
          validate_run[OF cc] logPanics_run[OF cc] bind_def return_def)
  then obtain msg words where run: "?run =
      (Returns (), t0 @ [Log_ev LvlInfo msg (Ctx (buildLogger logger (FullName baseRepo) pullNum)),
                    CreateComment_ev baseRepo (Num pull') words])"
     and words: "words = (if \<not> AllowForkPRs c \<and> Owner headRepo' \<noteq> Owner baseRepo
           then ''Atlantis commands can't be run on fork pull requests. To enable, set --''
                  @ AllowForkPRsFlag c
           else ''Atlantis commands can't be run on closed pull requests'')"
    by blast
  show "fst ?run = Returns ()" by (simp add: run)
  show "comments (snd ?run) = [(baseRepo, Num pull',
           if \<not> AllowForkPRs c \<and> Owner headRepo' \<noteq> Owner baseRepo
           then ''Atlantis commands can't be run on fork pull requests. To enable, set --''
                  @ AllowForkPRsFlag c
           else ''Atlantis commands can't be run on closed pull requests'')]"
    unfolding run using words t0 by (simp add: comments_append)
  show "filter is_status_update (snd ?run) = []" using t0 by (simp add: run)
  show "map fst (History (snd ?run)) = [LvlInfo]" using t0 by (simp add: run History_append)
qed

theorem validation_failure_is_one_info_comment_witness:
  "comments (snd (RunAutoplanCommand (demo_runner None closed_pull demo_repo fails_in_a) demo_logger
       demo_repo demo_repo closed_pull demo_user))
     = [(demo_repo, 5, ''Atlantis commands can't be run on closed pull requests'')]
   \<and> filter is_status_update (snd (RunAutoplanCommand (demo_runner None closed_pull demo_repo fails_in_a)
       demo_logger demo_repo demo_repo closed_pull demo_user)) = []
   \<and> map fst (History (snd (RunAutoplanCommand (demo_runner None closed_pull demo_repo fails_in_a)
       demo_logger demo_repo demo_repo closed_pull demo_user))) = [LvlInfo]
   \<and> comments (snd (RunCommentCommand (demo_runner (Some github_getter) demo_pull fork_repo fails_in_a)
       demo_logger demo_repo None demo_user 5 plan_comment))
     = [(demo_repo, 5, ''Atlantis commands can't be run on fork pull requests. To enable, set --allow-fork-prs'')]
   \<and> filter is_status_update (snd (RunCommentCommand
       (demo_runner (Some github_getter) demo_pull fork_repo fails_in_a)
       demo_logger demo_repo None demo_user 5 plan_comment)) = []
   \<and> map fst (History (snd (RunCommentCommand
       (demo_runner (Some github_getter) demo_pull fork_repo fails_in_a)
       demo_logger demo_repo None demo_user 5 plan_comment))) = [LvlInfo]"
proof -
  have a: "State closed_pull \<noteq> Open" "Num closed_pull = 5"
    by (simp_all add: closed_pull_def demo_pull_def)
  have b: "\<not> AllowForkPRs (demo_runner (Some github_getter) demo_pull fork_repo fails_in_a)"
    "Owner fork_repo \<noteq> Owner demo_repo" "Num demo_pull = 5"
    "AllowForkPRsFlag (demo_runner (Some github_getter) demo_pull fork_repo fails_in_a) = ''allow-fork-prs''"
    by (simp_all add: demo_runner_def fork_repo_def demo_repo_def demo_pull_def)
  have c: "Owner demo_repo = Owner demo_repo" by simp
  from validation_failure_is_one_info_comment[OF demo_runner_comments, of None closed_pull demo_repo fails_in_a demo_repo demo_repo closed_pull
            demo_logger demo_user None 5 closed_pull demo_repo "[]" plan_comment] a
  have first: "comments (snd (RunAutoplanCommand (demo_runner None closed_pull demo_repo fails_in_a) demo_logger
       demo_repo demo_repo closed_pull demo_user))
     = [(demo_repo, 5, ''Atlantis commands can't be run on closed pull requests'')]
   \<and> filter is_status_update (snd (RunAutoplanCommand (demo_runner None closed_pull demo_repo fails_in_a)
       demo_logger demo_repo demo_repo closed_pull demo_user)) = []
   \<and> map fst (History (snd (RunAutoplanCommand (demo_runner None closed_pull demo_repo fails_in_a)
       demo_logger demo_repo demo_repo closed_pull demo_user))) = [LvlInfo]"
    by simp
  from validation_failure_is_one_info_comment[OF demo_runner_comments, of "Some github_getter" demo_pull fork_repo fails_in_a demo_repo demo_repo
            demo_pull demo_logger demo_user None 5 demo_pull fork_repo
            "[GetPullRequest_ev demo_repo 5, ParseGithubPull_ev (GithubPullRequest ''payload'')]" plan_comment]
       demo_resolve[of demo_pull fork_repo fails_in_a zero_Repo 5] b
  have second: "comments (snd (RunCommentCommand (demo_runner (Some github_getter) demo_pull fork_repo fails_in_a)
       demo_logger demo_repo None demo_user 5 plan_comment))
     = [(demo_repo, 5, ''Atlantis commands can't be run on fork pull requests. To enable, set --allow-fork-prs'')]
   \<and> filter is_status_update (snd (RunCommentCommand
       (demo_runner (Some github_getter) demo_pull fork_repo fails_in_a)
       demo_logger demo_repo None demo_user 5 plan_comment)) = []
   \<and> map fst (History (snd (RunCommentCommand
       (demo_runner (Some github_getter) demo_pull fork_repo fails_in_a)
       demo_logger demo_repo None demo_user 5 plan_comment))) = [LvlInfo]"
    by simp
  from first second show ?thesis by simp
qed

text \<open>
  C7: in \<^verbatim>\<open>RunAutoplanCommand\<close>, when the builder returns the units \<open>projectCmds\<close> and
  every call of \<^verbatim>\<open>Plan\<close> returns, whatever error or failure it reports, the units planned
  are \<open>projectCmds\<close> in this order, and the result given to the commit-status updater has
  one project result for each unit, in the same order, with the unit's directory and
  workspace and what \<^verbatim>\<open>Plan\<close> returned for it.
\<close>

theorem autoplan_runs_every_unit_in_order:
  assumes ctx: "ctx = \<lparr>ctx_User = user, ctx_Logger = buildLogger logger (FullName baseRepo) (Num pull),
                        ctx_Pull = pull, ctx_HeadRepo = headRepo, ctx_BaseRepo = baseRepo\<rparr>"
    and valid: "AllowForkPRs c \<or> Owner headRepo = Owner baseRepo" "State pull = Open"
    and pending: "Update (CommitStatusUpdater c) baseRepo pull Pending Plan = Returns statusErr"
    and built: "BuildAutoplanCommands (ProjectCommandBuilder c) ctx = Returns (projectCmds, None)"
    and plans: "\<forall>cmd \<in> set projectCmds. \<exists>res. Runner_Plan (ProjectCommandRunner c) cmd = Returns res"
  shows "planned (snd (RunAutoplanCommand c logger baseRepo headRepo pull user)) = projectCmds
       \<and> (\<exists>results.
             UpdateProjectResult_ev ctx Plan
               \<lparr>cr_Error = None, cr_Failure = [], ProjectResults = results\<rparr>
               \<in> set (snd (RunAutoplanCommand c logger baseRepo headRepo pull user))
           \<and> list_all2 (\<lambda>cmd res. Runner_Plan (ProjectCommandRunner c) cmd
                                      = Returns (ProjectCommandResult res)
                                  \<and> pr_RepoRelDir res = RepoRelDir cmd
                                  \<and> pr_Workspace res = Workspace cmd) projectCmds results)"
proof -
  let ?t1 = "[Update_ev baseRepo pull Pending Plan]
             @ (case statusErr of
                  Some e \<Rightarrow> [Log_ev LvlWarn ''unable to update commit status''
                               (Ctx (ctx_Logger ctx) @ [(''err'', e)])]
                | None \<Rightarrow> [])
             @ [BuildAutoplanCommands_ev ctx]"
  from planAll_run[OF plans, of "[]" ?t1] obtain results where
    run: "planAll c projectCmds [] ?t1 = (Returns results, ?t1 @ map Plan_ev projectCmds)"
    and all2: "list_all2 (\<lambda>cmd res. Runner_Plan (ProjectCommandRunner c) cmd
                                      = Returns (ProjectCommandResult res)
                                  \<and> pr_RepoRelDir res = RepoRelDir cmd
                                  \<and> pr_Workspace res = Workspace cmd) projectCmds results"
    by auto
  let ?res = "\<lparr>cr_Error = None, cr_Failure = [], ProjectResults = results\<rparr>"
  let ?t2 = "?t1 @ map Plan_ev projectCmds"
  obtain r t' where up: "updatePull c ctx AutoplanCommand ?res ?t2 = (r, t')"
    by (cases "updatePull c ctx AutoplanCommand ?res ?t2") auto
  have fields: "ctx_BaseRepo ctx = baseRepo" "ctx_HeadRepo ctx = headRepo" "ctx_Pull ctx = pull"
    using ctx by simp_all
  have v: "validateCtxAndComment c ctx [] = (Returns True, [])"
    using valid fields by (auto simp: validateCtxAndComment_def return_def)
  have pe: "updatePending c ctx Plan [] =
      (Returns (), [Update_ev baseRepo pull Pending Plan]
             @ (case statusErr of
                  Some e \<Rightarrow> [Log_ev LvlWarn ''unable to update commit status''
                               (Ctx (ctx_Logger ctx) @ [(''err'', e)])]
                | None \<Rightarrow> []))"
    using pending fields
    by (cases statusErr)
       (simp_all add: updatePending_def bind_def return_def call_def emit_def log_def)
  have body: "RunAutoplanCommand_body c ctx [] = (r, t')"
    using run up
    by (simp add: RunAutoplanCommand_body_def v pe built bind_def seq_def call_def)
  from updatePull_frame[OF up] have fr: "planned t' = planned ?t2"
    and ev: "UpdateProjectResult_ev ctx Plan ?res \<in> set t'"
    by simp_all
  have pl: "planned ?t2 = projectCmds"
    by (cases statusErr) (simp_all add: planned_append planned_Plan_evs)
  obtain r' t'' where lp: "logPanics c ctx (case r of Returns x \<Rightarrow> None | Panics p \<Rightarrow> Some p) t' = (r', t'')"
    by (cases "logPanics c ctx (case r of Returns x \<Rightarrow> None | Panics p \<Rightarrow> Some p) t'") auto
  have whole: "RunAutoplanCommand c logger baseRepo headRepo pull user = (r', t'')"
    using body lp ctx
    by (cases r) (simp_all add: RunAutoplanCommand_def Let_def defer_recover_def)
  from logPanics_frame[OF lp] fr pl ev have "planned t'' = projectCmds"
    and "UpdateProjectResult_ev ctx Plan ?res \<in> set t''"
    by simp_all
  with whole all2 show ?thesis by auto
qed

theorem autoplan_runs_every_unit_in_order_witness:
  "fails_in_a unit_a = Returns \<lparr>pcr_Error = Some ''exit status 1'', pcr_Failure = [], pcr_Output = []\<rparr>
   \<and> planned (snd (RunAutoplanCommand (demo_runner None demo_pull demo_repo fails_in_a) demo_logger
         demo_repo demo_repo demo_pull demo_user)) = [unit_a, unit_b]
   \<and> UpdateProjectResult_ev
        \<lparr>ctx_User = demo_user, ctx_Logger = buildLogger demo_logger (FullName demo_repo) (Num demo_pull),
         ctx_Pull = demo_pull, ctx_HeadRepo = demo_repo, ctx_BaseRepo = demo_repo\<rparr>
        Plan
        \<lparr>cr_Error = None, cr_Failure = [],
         ProjectResults =
           [\<lparr>ProjectCommandResult =
                \<lparr>pcr_Error = Some ''exit status 1'', pcr_Failure = [], pcr_Output = []\<rparr>,
             pr_RepoRelDir = ''a'', pr_Workspace = ''default''\<rparr>,
            \<lparr>ProjectCommandResult =
                \<lparr>pcr_Error = None, pcr_Failure = [], pcr_Output = ''No changes.''\<rparr>,
             pr_RepoRelDir = ''b'', pr_Workspace = ''staging''\<rparr>]\<rparr>
       \<in> set (snd (RunAutoplanCommand (demo_runner None demo_pull demo_repo fails_in_a) demo_logger
                     demo_repo demo_repo demo_pull demo_user))"
proof -
  let ?c = "demo_runner None demo_pull demo_repo fails_in_a"
  let ?ctx = "\<lparr>ctx_User = demo_user, ctx_Logger = buildLogger demo_logger (FullName demo_repo) (Num demo_pull),
         ctx_Pull = demo_pull, ctx_HeadRepo = demo_repo, ctx_BaseRepo = demo_repo\<rparr>"
  have valid: "AllowForkPRs ?c \<or> Owner demo_repo = Owner demo_repo" "State demo_pull = Open"
    by (simp_all add: demo_pull_def)
  have pending: "Update (CommitStatusUpdater ?c) demo_repo demo_pull Pending Plan = Returns None"
    by (simp add: demo_runner_def)
  have built: "BuildAutoplanCommands (ProjectCommandBuilder ?c) ?ctx = Returns ([unit_a, unit_b], None)"
    by (simp add: demo_runner_def)
  have plans: "\<forall>cmd \<in> set [unit_a, unit_b]. \<exists>res. Runner_Plan (ProjectCommandRunner ?c) cmd = Returns res"
    by (simp add: demo_runner_def fails_in_a_def)
  from autoplan_runs_every_unit_in_order[OF refl valid pending built plans] obtain results where
    pl: "planned (snd (RunAutoplanCommand ?c demo_logger demo_repo demo_repo demo_pull demo_user))
           = [unit_a, unit_b]"
    and ev: "UpdateProjectResult_ev ?ctx Plan \<lparr>cr_Error = None, cr_Failure = [], ProjectResults = results\<rparr>
       \<in> set (snd (RunAutoplanCommand ?c demo_logger demo_repo demo_repo demo_pull demo_user))"
    and all2: "list_all2 (\<lambda>cmd res. Runner_Plan (ProjectCommandRunner ?c) cmd
                                      = Returns (ProjectCommandResult res)
                                  \<and> pr_RepoRelDir res = RepoRelDir cmd
                                  \<and> pr_Workspace res = Workspace cmd) [unit_a, unit_b] results"
    by blast
  from all2 have "results =
           [\<lparr>ProjectCommandResult =
                \<lparr>pcr_Error = Some ''exit status 1'', pcr_Failure = [], pcr_Output = []\<rparr>,
             pr_RepoRelDir = ''a'', pr_Workspace = ''default''\<rparr>,
            \<lparr>ProjectCommandResult =
                \<lparr>pcr_Error = None, pcr_Failure = [], pcr_Output = ''No changes.''\<rparr>,
             pr_RepoRelDir = ''b'', pr_Workspace = ''staging''\<rparr>]"
    by (auto simp: list_all2_Cons1 demo_runner_def fails_in_a_def unit_a_def unit_b_def)
  with pl ev show ?thesis by (simp add: fails_in_a_def unit_a_def)
qed

text \<open>
  C8, as amended: a comment command on a GitHub repository with a \<^verbatim>\<open>nil\<close>
  \<^verbatim>\<open>GithubPullGetter\<close>, or on a GitLab repository with a \<^verbatim>\<open>nil\<close>
  \<^verbatim>\<open>GitlabMergeRequestGetter\<close>, returns after one log record at error level with the
  configuration error, and nothing else: no commit status and no comment.
\<close>

theorem absent_pull_getter_is_logged_only:
  "(Type (Repo_VCSHost baseRepo) = Github \<and> GithubPullGetter c = None \<longrightarrow>
      RunCommentCommand c logger baseRepo maybeHeadRepo user pullNum cmd =
        (Returns (), [Log_ev LvlError ''Atlantis not configured to support GitHub''
                        (Ctx (buildLogger logger (FullName baseRepo) pullNum))]))
 \<and> (Type (Repo_VCSHost baseRepo) = Gitlab \<and> GitlabMergeRequestGetter c = None \<longrightarrow>
      RunCommentCommand c logger baseRepo maybeHeadRepo user pullNum cmd =
        (Returns (), [Log_ev LvlError ''Atlantis not configured to support GitLab''
                        (Ctx (buildLogger logger (FullName baseRepo) pullNum))]))"
  by (simp add: RunCommentCommand_def RunCommentCommand_resolve_def getGithubData_def
        getGitlabData_def return_def bind_def call_def emit_def log_def)

theorem absent_pull_getter_is_logged_only_witness:
  "RunCommentCommand (demo_runner None demo_pull demo_repo fails_in_a) demo_logger demo_repo None
      demo_user 7 plan_comment
     = (Returns (), [Log_ev LvlError ''Atlantis not configured to support GitHub''
                       (Ctx (buildLogger demo_logger (FullName demo_repo) 7))])
   \<and> RunCommentCommand (demo_runner None demo_pull demo_repo fails_in_a) demo_logger gitlab_repo None
      demo_user 7 plan_comment
     = (Returns (), [Log_ev LvlError ''Atlantis not configured to support GitLab''
                       (Ctx (buildLogger demo_logger (FullName gitlab_repo) 7))])"
  using absent_pull_getter_is_logged_only[of demo_repo "demo_runner None demo_pull demo_repo fails_in_a" demo_logger None demo_user 7 plan_comment]
    absent_pull_getter_is_logged_only[of gitlab_repo "demo_runner None demo_pull demo_repo fails_in_a" demo_logger None demo_user 7 plan_comment]
  by (simp add: demo_repo_def gitlab_repo_def demo_runner_def)

text \<open>
  The claim as first stated has the configuration error reported through a commit status
  and a comment. With a \<^verbatim>\<open>nil\<close> GitHub getter the run has neither.
\<close>

theorem absent_pull_getter_not_reported_counterexample:
  "GithubPullGetter (demo_runner None demo_pull demo_repo fails_in_a) = None
   \<and> comments (snd (RunCommentCommand (demo_runner None demo_pull demo_repo fails_in_a) demo_logger
        demo_repo None demo_user 1 plan_comment)) = []
   \<and> filter is_status_update (snd (RunCommentCommand (demo_runner None demo_pull demo_repo fails_in_a)
        demo_logger demo_repo None demo_user 1 plan_comment)) = []"
  by (simp add: RunCommentCommand_def RunCommentCommand_resolve_def getGithubData_def
        demo_runner_def demo_repo_def return_def bind_def call_def emit_def log_def)

section \<open>Claims about the locks controller\<close>

text \<open>
  C3: in \<^verbatim>\<open>DeleteLock\<close>, once \<^verbatim>\<open>Locker.Unlock\<close> has removed a lock that has a base
  repository, the handler returns and the response is 200 unless posting the comment
  fails, when it is 500; this holds whether or not the working-directory lock was acquired
  and whether or not deleting the workspace failed, and both failures are logged at error
  level.
\<close>

theorem DeleteLock_cleanup_failures_are_logged_only:
  assumes "vars ''id'' = Some id'" and "id' \<noteq> []" and "PathUnescape id' = Inr key"
    and "Locker_Unlock (Locker l) key = Returns (Some lock, None)"
    and "Pull_BaseRepo (lock_Pull lock) \<noteq> zero_Repo"
    and "TryLock (WorkingDirLocker l) (FullName (Pull_BaseRepo (lock_Pull lock)))
           (lock_Workspace lock) (Num (lock_Pull lock)) = Returns (unlock, lockErr)"
    and "lockErr = None \<longrightarrow> unlock = Returns () \<and>
           DeleteForWorkspace (WorkingDir l) (Pull_BaseRepo (lock_Pull lock)) (lock_Pull lock)
             (lock_Workspace lock) = Returns deleteErr"
    and "CreateComment (lc_VCSClient l) (Pull_BaseRepo (lock_Pull lock)) (Num (lock_Pull lock))
           (discardedComment lock) = Returns commentErr"
  shows "fst (DeleteLock l vars []) = Returns ()
       \<and> response_status (DeleteLock l vars []) = Some (if commentErr = None then 200 else 500)
       \<and> (\<forall>e. lockErr = Some e \<longrightarrow>
             Log_ev LvlError ''unable to obtain working dir lock when trying to delete old plans''
               (Ctx (Logger l) @ [(''err'', e)]) \<in> set (snd (DeleteLock l vars [])))
       \<and> (\<forall>e. lockErr = None \<and> deleteErr = Some e \<longrightarrow>
             Log_ev LvlError ''unable to delete workspace'' (Ctx (Logger l) @ [(''err'', e)])
               \<in> set (snd (DeleteLock l vars [])))"
proof (cases lockErr)
  case None
  with assms show ?thesis
    by (cases commentErr)
       (simp_all add: DeleteLock_def bind_def seq_def call_def emit_def log_def defer_call_def
          DeleteLock_comment_run response_status_def err_text_def)
next
  case (Some e)
  with assms show ?thesis
    by (cases commentErr)
       (simp_all add: DeleteLock_def bind_def seq_def call_def emit_def log_def defer_call_def
          DeleteLock_comment_run response_status_def err_text_def)
qed



theorem DeleteLock_cleanup_failures_are_logged_only_witness:
  "response_status (DeleteLock (demo_controller (Some demo_lock) None (Some ''locked'') None None)
      (route_vars ''org%2Frepo'') []) = Some 200
   \<and> Log_ev LvlError ''unable to obtain working dir lock when trying to delete old plans''
        [(''err'', ''locked'')]
       \<in> set (snd (DeleteLock (demo_controller (Some demo_lock) None (Some ''locked'') None None)
                      (route_vars ''org%2Frepo'') []))
   \<and> response_status (DeleteLock (demo_controller (Some demo_lock) None None (Some ''busy'') None)
      (route_vars ''org%2Frepo'') []) = Some 200
   \<and> Log_ev LvlError ''unable to delete workspace'' [(''err'', ''busy'')]
       \<in> set (snd (DeleteLock (demo_controller (Some demo_lock) None None (Some ''busy'') None)
                      (route_vars ''org%2Frepo'') []))
   \<and> response_status (DeleteLock (demo_controller (Some demo_lock) None None None (Some ''403''))
      (route_vars ''org%2Frepo'') []) = Some 500"
proof -
  have key: "PathUnescape ''org%2Frepo'' = Inr ''org/repo''"
    by code_simp
  have base: "Pull_BaseRepo (lock_Pull demo_lock) \<noteq> zero_Repo"
    by (simp add: demo_lock_def demo_pull_def demo_repo_def zero_Repo_def)
  have a: "response_status (DeleteLock (demo_controller (Some demo_lock) None (Some ''locked'') None None)
      (route_vars ''org%2Frepo'') []) = Some 200
    \<and> Log_ev LvlError ''unable to obtain working dir lock when trying to delete old plans''
        [(''err'', ''locked'')]
       \<in> set (snd (DeleteLock (demo_controller (Some demo_lock) None (Some ''locked'') None None)
                      (route_vars ''org%2Frepo'') []))"
    using DeleteLock_cleanup_failures_are_logged_only
      [of "route_vars ''org%2Frepo''" "''org%2Frepo''" "''org/repo''"
          "demo_controller (Some demo_lock) None (Some ''locked'') None None" demo_lock
          "Returns ()" "Some ''locked''" None None] key base
    by (simp add: demo_controller_def route_vars_def)
  have b: "response_status (DeleteLock (demo_controller (Some demo_lock) None None (Some ''busy'') None)
      (route_vars ''org%2Frepo'') []) = Some 200
    \<and> Log_ev LvlError ''unable to delete workspace'' [(''err'', ''busy'')]
       \<in> set (snd (DeleteLock (demo_controller (Some demo_lock) None None (Some ''busy'') None)
                      (route_vars ''org%2Frepo'') []))"
    using DeleteLock_cleanup_failures_are_logged_only
      [of "route_vars ''org%2Frepo''" "''org%2Frepo''" "''org/repo''"
          "demo_controller (Some demo_lock) None None (Some ''busy'') None" demo_lock
          "Returns ()" None "Some ''busy''" None] key base
    by (simp add: demo_controller_def route_vars_def)
  have c: "response_status (DeleteLock (demo_controller (Some demo_lock) None None None (Some ''403''))
      (route_vars ''org%2Frepo'') []) = Some 500"
    using DeleteLock_cleanup_failures_are_logged_only
      [of "route_vars ''org%2Frepo''" "''org%2Frepo''" "''org/repo''"
          "demo_controller (Some demo_lock) None None None (Some ''403'')" demo_lock
          "Returns ()" None None "Some ''403''"] key base
    by (simp add: demo_controller_def route_vars_def)
  from a b c show ?thesis by simp
qed

text \<open>
  C4: a \<^verbatim>\<open>DeleteLock\<close> request whose removed lock has the zero \<^verbatim>\<open>Repo\<close> as the base
  repository of its pull request calls neither the working-directory locker, nor the
  workspace deletion, nor the comment client, and the response is 200.
\<close>

theorem DeleteLock_without_base_repo:
  assumes "vars ''id'' = Some id'" and "id' \<noteq> []" and "PathUnescape id' = Inr key"
    and "Locker_Unlock (Locker l) key = Returns (Some lock, None)"
    and "Pull_BaseRepo (lock_Pull lock) = zero_Repo"
  shows "fst (DeleteLock l vars []) = Returns ()
       \<and> response_status (DeleteLock l vars []) = Some 200
       \<and> filter is_cleanup_or_comment (snd (DeleteLock l vars [])) = []"
  using assms
  by (simp add: DeleteLock_def prog_defs respond_run response_status_def)


theorem DeleteLock_without_base_repo_witness:
  "Pull_BaseRepo (lock_Pull legacy_lock) = zero_Repo
   \<and> response_status (DeleteLock (demo_controller (Some legacy_lock) None None None None)
        (route_vars ''old'') []) = Some 200
   \<and> filter is_cleanup_or_comment
        (snd (DeleteLock (demo_controller (Some legacy_lock) None None None None)
               (route_vars ''old'') [])) = []"
proof -
  have key: "PathUnescape ''old'' = Inr ''old''"
    by (simp add: PathUnescape_def)
  have base: "Pull_BaseRepo (lock_Pull legacy_lock) = zero_Repo"
    by (simp add: legacy_lock_def)
  show ?thesis
    using DeleteLock_without_base_repo
      [of "route_vars ''old''" "''old''" "''old''"
          "demo_controller (Some legacy_lock) None None None None" legacy_lock] key base
    by (simp add: demo_controller_def route_vars_def)
qed






text \<open>
  C9: when the store holds a lock whose repository full name has no slash,
  \<^verbatim>\<open>GetLock\<close> on its id panics with an index out of range right after the store lookup,
  and no response is sent; the template is executed exactly when the full name has a slash.
\<close>

theorem GetLock_full_name_without_slash:
  assumes "vars ''id'' = Some id'" and "QueryUnescape id' = Inr key"
    and "Locker_GetLock (Locker l) key = Returns (Some lock, None)"
  shows "(CHR ''/'' \<notin> set (RepoFullName (lock_Project lock)) \<longrightarrow>
            GetLock l vars [] = (Panics ''runtime error: index out of range'', [Locker_GetLock_ev key])
          \<and> response_status (GetLock l vars []) = None)
       \<and> ((\<exists>viewData. Execute_ev viewData \<in> set (snd (GetLock l vars [])))
            = (CHR ''/'' \<in> set (RepoFullName (lock_Project lock))))"
proof (cases "CHR ''/'' \<in> set (RepoFullName (lock_Project lock))")
  case True
  then obtain owner name rest where
    sp: "strings_Split (RepoFullName (lock_Project lock)) CHR ''/'' = owner # name # rest"
    using strings_Split_sep by blast
  from GetLock_found[of vars id' key l lock owner name rest] assms sp True
  show ?thesis by simp
next
  case False
  with assms have "GetLock l vars [] =
      (Panics ''runtime error: index out of range'', [Locker_GetLock_ev key])"
    by (simp add: GetLock_def prog_defs index_def strings_Split_def splitFrom_no_sep)
  with False show ?thesis by (simp add: response_status_def)
qed


theorem GetLock_full_name_without_slash_witness:
  "CHR ''/'' \<notin> set (RepoFullName (lock_Project flat_lock))
   \<and> GetLock (demo_controller (Some flat_lock) None None None None) (route_vars ''monorepo'') []
       = (Panics ''runtime error: index out of range'', [Locker_GetLock_ev ''monorepo''])
   \<and> response_status (GetLock (demo_controller (Some flat_lock) None None None None)
        (route_vars ''monorepo'') []) = None"
proof -
  have key: "QueryUnescape ''monorepo'' = Inr ''monorepo''"
    by (simp add: QueryUnescape_def)
  have flat: "CHR ''/'' \<notin> set (RepoFullName (lock_Project flat_lock))"
    by (simp add: flat_lock_def)
  show ?thesis
    using GetLock_full_name_without_slash
      [of "route_vars ''monorepo''" "''monorepo''" "''monorepo''"
          "demo_controller (Some flat_lock) None None None None" flat_lock] key flat
    by (simp add: route_vars_def demo_controller_def response_status_def)
qed

text \<open>
  C10: \<^verbatim>\<open>GetLock\<close> decodes the id with \<^verbatim>\<open>url.QueryUnescape\<close> and \<^verbatim>\<open>DeleteLock\<close> with
  \<^verbatim>\<open>url.PathUnescape\<close>. For every id with a \<^verbatim>\<open>+\<close> that decodes, the key that \<^verbatim>\<open>GetLock\<close>
  looks up and the key that \<^verbatim>\<open>DeleteLock\<close> unlocks differ; without percent escapes the
  first is the id with every \<^verbatim>\<open>+\<close> turned into a space and the second is the id itself.
\<close>

theorem GetLock_DeleteLock_keys_differ_on_plus:
  assumes "vars ''id'' = Some id'" and "CHR ''+'' \<in> set id'" and "QueryUnescape id' = Inr getKey"
  shows "\<exists>deleteKey. PathUnescape id' = Inr deleteKey \<and> getKey \<noteq> deleteKey
           \<and> filter is_store_access (snd (GetLock l vars [])) = [Locker_GetLock_ev getKey]
           \<and> filter is_store_access (snd (DeleteLock l vars [])) = [Locker_Unlock_ev deleteKey]
           \<and> (CHR ''%'' \<notin> set id' \<longrightarrow>
                 getKey = map (\<lambda>c. if c = CHR ''+'' then CHR '' '' else c) id' \<and> deleteKey = id')"
proof -
  from assms(3) obtain deleteKey where dk: "PathUnescape id' = Inr deleteKey"
    using unescape_wellformed_mode[of id' encodeQueryComponent encodePathSegment]
    by (auto simp: QueryUnescape_def PathUnescape_def)
  have ne: "getKey \<noteq> deleteKey"
    using unescape_modes_differ[of id' getKey deleteKey] assms(2,3) dk
    by (simp add: QueryUnescape_def PathUnescape_def)
  have "id' \<noteq> []" using assms(2) by auto
  then have del: "filter is_store_access (snd (DeleteLock l vars [])) = [Locker_Unlock_ev deleteKey]"
    using DeleteLock_store_access[of vars id' deleteKey l] assms(1) dk by simp
  have get: "filter is_store_access (snd (GetLock l vars [])) = [Locker_GetLock_ev getKey]"
    using GetLock_store_access[of vars id' getKey l] assms(1,3) by simp
  have "CHR ''%'' \<notin> set id' \<longrightarrow>
          getKey = map (\<lambda>c. if c = CHR ''+'' then CHR '' '' else c) id' \<and> deleteKey = id'"
    using unescape_no_percent_query[of id'] unescape_no_percent_path[of id'] assms(3) dk
    by (auto simp: QueryUnescape_def PathUnescape_def)
  with dk ne del get show ?thesis by blast
qed

theorem GetLock_DeleteLock_keys_differ_on_plus_witness:
  "QueryUnescape ''my+lock'' = Inr ''my lock''
   \<and> PathUnescape ''my+lock'' = Inr ''my+lock''
   \<and> filter is_store_access (snd (GetLock (demo_controller None None None None None)
       (route_vars ''my+lock'') [])) = [Locker_GetLock_ev ''my lock'']
   \<and> filter is_store_access (snd (DeleteLock (demo_controller None None None None None)
       (route_vars ''my+lock'') [])) = [Locker_Unlock_ev ''my+lock'']"
proof -
  have q: "QueryUnescape ''my+lock'' = Inr ''my lock''"
    by (simp add: QueryUnescape_def)
  have p: "PathUnescape ''my+lock'' = Inr ''my+lock''"
    by (simp add: PathUnescape_def)
  show ?thesis
    using GetLock_DeleteLock_keys_differ_on_plus
      [of "route_vars ''my+lock''" "''my+lock''" "''my lock''"
          "demo_controller None None None None None"] q p
    by (auto simp add: route_vars_def)
qed

end
